theory Spec2Isabelle
  imports Complex_Main
begin

section \<open>Dates as mutable objects\<close>

text \<open>
  The resize handlers compute with \<open>TZDate\<close> objects. A \<open>TZDate\<close> is mutable
  (\<open>addMinutes\<close>, \<open>addMilliseconds\<close> and \<open>addDate\<close> change the receiver and return
  it), and a schedule holds two of them, so the dates live in a store: a \<open>tzdate\<close> is the
  address of a cell and the cell holds the instant in epoch milliseconds. JavaScript
  numbers are exact on the integers the handlers meet, so an instant is an \<open>int\<close>.
\<close>

type_synonym msec = int
type_synonym tzdate = nat
type_synonym store = "msec list"

text \<open>
  Modelled from the spec: \<open>common/timezone\<close> (the \<open>TZDate\<close> class) is not among the
  sources. \<open>new TZDate(x)\<close> makes a fresh object holding the instant of \<open>x\<close>;
  \<open>getTime\<close> (and \<open>valueOf\<close>, which the comparisons and subtractions of the handlers
  call) reads it; the \<open>add...\<close> methods move the receiver. The spec's \<open>day + 1\<close> is
  \<open>addDate(1)\<close>; a calendar day is taken as 24 hours (no change of the UTC offset
  inside the view's day).
\<close>

definition new_TZDate :: "msec \<Rightarrow> store \<Rightarrow> tzdate \<times> store" where
  "new_TZDate ms h = (length h, h @ [ms])"

definition getTime :: "store \<Rightarrow> tzdate \<Rightarrow> msec" where
  "getTime h d = h ! d"

definition addMilliseconds :: "tzdate \<Rightarrow> msec \<Rightarrow> store \<Rightarrow> store" where
  "addMilliseconds d n h = h[d := h ! d + n]"

definition addMinutes :: "tzdate \<Rightarrow> int \<Rightarrow> store \<Rightarrow> store" where
  "addMinutes d n h = addMilliseconds d (n * 60000) h"

definition addDate :: "tzdate \<Rightarrow> int \<Rightarrow> store \<Rightarrow> store" where
  "addDate d n h = addMilliseconds d (n * 86400000) h"

text \<open>
  Modelled from the spec: \<open>common/datetime\<close> is not among the sources.
  \<open>millisecondsFrom('minutes', n)\<close> converts minutes to milliseconds; \<open>datetime.end(d)\<close>
  is the spec's end-of-day: a fresh date at 23:59:59 of the calendar day of \<open>d\<close>. Days
  are cut at multiples of 24 hours of the epoch (local time with offset zero).
\<close>

datatype time_unit = Day | Hour | Minutes | Seconds

fun millisecondsFrom :: "time_unit \<Rightarrow> int \<Rightarrow> msec" where
  "millisecondsFrom Day n = n * 86400000"
| "millisecondsFrom Hour n = n * 3600000"
| "millisecondsFrom Minutes n = n * 60000"
| "millisecondsFrom Seconds n = n * 1000"

definition start_of_day :: "msec \<Rightarrow> msec" where
  "start_of_day t = t - t mod 86400000"

definition end_of_day :: "msec \<Rightarrow> msec" where
  "end_of_day t = start_of_day t + 86399000"

definition datetime_end :: "tzdate \<Rightarrow> store \<Rightarrow> tzdate \<times> store" where
  "datetime_end d h = new_TZDate (end_of_day (getTime h d)) h"


section \<open>Schedules, views and pointer events\<close>

text \<open>
  A schedule has an identifier and two dates; \<open>getStarts()\<close> and \<open>getEnds()\<close> return
  the schedule's own date objects, not copies.
\<close>

record schedule =
  cid :: string
  starts :: tzdate
  ends :: tzdate

record mouse_event =
  clientX :: real
  clientY :: real

text \<open>
  Modelled from the spec: the time-slot mapper (\<open>time/core\<close>, mixed into the handler as
  \<open>_retriveScheduleData\<close>) is not among the sources. For a view it is a function of the
  pointer event giving \<open>timeY\<close> (milliseconds) and \<open>nearestGridTimeY\<close>; the view also
  answers \<open>getDate()\<close>, its base date.
\<close>

record time_view =
  getDate :: msec
  pointToTime :: "mouse_event \<Rightarrow> msec \<times> msec"

record schedule_data =
  relatedView :: time_view
  originEvent :: mouse_event
  timeY :: msec
  nearestGridTimeY :: tzdate
  targetModelID :: string
  scheduleOf :: "schedule option"

record dragend_data = schedule_data +
  timeRange :: "msec \<times> tzdate"
  nearestRange :: "tzdate \<times> tzdate"

definition retriveScheduleData ::
  "time_view \<Rightarrow> mouse_event \<Rightarrow> string \<times> schedule option \<Rightarrow> store \<Rightarrow> schedule_data \<times> store" where
  "retriveScheduleData timeView mouseEvent ext h =
     (let (ty, ngt) = pointToTime timeView mouseEvent;
          (ngty, h1) = new_TZDate ngt h
      in (\<lparr>relatedView = timeView, originEvent = mouseEvent, timeY = ty,
           nearestGridTimeY = ngty, targetModelID = fst ext, scheduleOf = snd ext\<rparr>, h1))"

text \<open>
  Modelled from the spec: \<open>common/domutil\<close> and \<open>config\<close> are not among the sources. Of
  the element under the pointer the classifier asks: does it carry the resize-handle
  class; which \<open>.time-date\<close> container encloses it, and which view index the container's
  class name embeds (\<open>getViewIDRegExp\<close>); which \<open>.time-date-schedule-block\<close> encloses
  it, with its bounding rectangle and its \<open>data-id\<close>.
\<close>

record block_element =
  rect_top :: real
  rect_height :: real
  data_id :: string

record element =
  hasResizeHandleClass :: bool
  closestTimeDate :: "nat option option"
  closestScheduleBlock :: "block_element option"

record drag_event_data =
  target :: element
  dragOriginEvent :: mouse_event


section \<open>The emitter and the handler state\<close>

datatype field = Start | End

text \<open>
  Modelled from the spec: \<open>common.getScheduleChanges\<close> is not among the sources; the
  changes object holds only the modified field, that is the named properties of the
  data handed in. An object is a list of property names with their values.
\<close>

definition getScheduleChanges ::
  "schedule \<Rightarrow> field list \<Rightarrow> (field \<times> tzdate) list \<Rightarrow> (field \<times> tzdate) list" where
  "getScheduleChanges schedule propNames data = filter (\<lambda>p. fst p \<in> set propNames) data"

text \<open>
  Week-row pointer data and elements (see the month variant below), and the events the
  two handlers fire. \<open>BeforeUpdateSchedule schedule changes start end\<close> is the change
  request.
\<close>

record week_data =
  gridX :: nat
  gridY :: nat
  date :: msec

record week_element =
  hasWeekdayResizeHandleClass :: bool
  closestWeekdayScheduleBlock :: "string option"

datatype event =
    TimeResizeDragstart schedule_data
  | TimeResizeDrag schedule_data
  | TimeResizeDragTop schedule_data
  | TimeResizeDragend dragend_data
  | TimeResizeClick
  | WeekResizeDragstart week_data string "schedule option"
  | WeekResizeDrag week_data
  | WeekResizeDragend "week_data option"
  | BeforeUpdateSchedule schedule "(field \<times> tzdate) list" tzdate tzdate

type_synonym change_request = "schedule \<times> (field \<times> tzdate) list \<times> tzdate \<times> tzdate"

fun changeRequests :: "event list \<Rightarrow> change_request list" where
  "changeRequests [] = []"
| "changeRequests (BeforeUpdateSchedule s c a b # evs) = (s, c, a, b) # changeRequests evs"
| "changeRequests (ev # evs) = changeRequests evs"

text \<open>
  Modelled from the spec: the drag gesture source and the event-emitter mixin
  (\<open>tui-code-snippet\<close>'s \<open>CustomEvents\<close>) are not among the sources. The gesture source
  emits \<open>dragStart\<close>, \<open>drag\<close>, \<open>dragEnd\<close> and \<open>click\<close>; \<open>on\<close> appends handlers to
  its subscriptions and \<open>off\<close> removes every subscription of the named handler from the
  named event.
\<close>

datatype drag_event = DragStart | Drag | DragEnd | Click

datatype handler = OnDragStart | OnDrag | OnDragTop | OnDragEnd | OnDragEndTop | OnClick

type_synonym subscriptions = "(drag_event \<times> handler) list"

definition on :: "'a list \<Rightarrow> 'a list \<Rightarrow> 'a list" where
  "on hs subs = subs @ hs"

definition off :: "'a list \<Rightarrow> 'a list \<Rightarrow> 'a list" where
  "off hs subs = filter (\<lambda>s. s \<notin> set hs) subs"

text \<open>
  The state of a \<open>TimeResize\<close> handler and of what it reaches: the time grid's child
  views, the controller's schedule collection, the two session fields (the mapper
  \<open>_getScheduleDataFunc\<close> is the closure over its view), the gesture source's
  subscriptions, the events fired so far and the store of dates.
\<close>

record time_resize =
  children_items :: "nat \<rightharpoonup> time_view"
  schedules_items :: "string \<rightharpoonup> schedule"
  getScheduleDataFunc :: "time_view option"
  dragStart :: "schedule_data option"
  dragHandler :: subscriptions
  fired :: "event list"
  heap :: store

definition fire :: "event \<Rightarrow> time_resize \<Rightarrow> time_resize" where
  "fire ev self = self\<lparr>fired := fired self @ [ev]\<rparr>"

definition TimeResize ::
  "(nat \<rightharpoonup> time_view) \<Rightarrow> (string \<rightharpoonup> schedule) \<Rightarrow> store \<Rightarrow> time_resize" where
  "TimeResize children schedules h =
     \<lparr>children_items = children, schedules_items = schedules, getScheduleDataFunc = None,
      dragStart = None, dragHandler = on [(DragStart, OnDragStart)] [], fired = [], heap = h\<rparr>"


section \<open>The day/time-grid gesture classifier\<close>

definition checkExpectCondition :: "time_resize \<Rightarrow> element \<Rightarrow> time_view option" where
  "checkExpectCondition self tgt =
     (if \<not> hasResizeHandleClass tgt then None
      else case closestTimeDate tgt of
             None \<Rightarrow> None
           | Some matches \<Rightarrow>
               (case matches of
                  None \<Rightarrow> None
                | Some viewID \<Rightarrow> children_items self viewID))"

text \<open>
  The pixel coordinates are JavaScript numbers, that is IEEE 754 doubles, and every
  arithmetic operation on them gives the exact result rounded to the nearest double
  (53 binary digits, ties to the even neighbour, gradual underflow below
  \<open>2 powr - 1022\<close>). A coordinate is modelled as the real number the double stands
  for; infinities and NaN, which no bounding rectangle or pointer event carries, are not
  modelled. The comparison \<open>\<le>\<close> of two doubles is exact.
\<close>

definition roundTiesToEven :: "real \<Rightarrow> int" where
  "roundTiesToEven y =
     (let f = \<lfloor>y\<rfloor>
      in if y - of_int f < 1 / 2 then f
         else if 1 / 2 < y - of_int f then f + 1
         else if even f then f else f + 1)"

definition double_round :: "real \<Rightarrow> real" where
  "double_round x =
     (if x = 0 then 0
      else (let e = max \<lfloor>log 2 \<bar>x\<bar>\<rfloor> (- 1022) - 52
            in of_int (roundTiesToEven (x / 2 powr of_int e)) * 2 powr of_int e))"

definition blockElementDraggingTopThreshold :: "block_element \<Rightarrow> real" where
  "blockElementDraggingTopThreshold blockElement =
     (let blockElementTopY = rect_top blockElement;
          blockElementBottomY = double_round (rect_top blockElement + rect_height blockElement)
      in double_round (blockElementTopY
           + double_round (double_round (blockElementBottomY - blockElementTopY) / 2)))"

definition isDraggingTop :: "block_element \<Rightarrow> mouse_event \<Rightarrow> bool" where
  "isDraggingTop blockElement ev =
     (let mouseStartY = clientY ev
      in mouseStartY \<le> blockElementDraggingTopThreshold blockElement)"

definition TimeResize_onDragStart :: "drag_event_data \<Rightarrow> time_resize \<Rightarrow> time_resize" where
  "TimeResize_onDragStart dragStartEventData self =
     (let tgt = target dragStartEventData;
          timeView = checkExpectCondition self tgt;
          blockElement = closestScheduleBlock tgt
      in case timeView of
           None \<Rightarrow> self
         | Some timeView \<Rightarrow>
            (case blockElement of
               None \<Rightarrow> self
             | Some blockElement \<Rightarrow>
                (let modelID = data_id blockElement;
                     (scheduleData, h) =
                        retriveScheduleData timeView (dragOriginEvent dragStartEventData)
                          (modelID, schedules_items self modelID) (heap self);
                     self = self\<lparr>getScheduleDataFunc := Some timeView,
                                 dragStart := Some scheduleData, heap := h\<rparr>;
                     self =
                       (if isDraggingTop blockElement (dragOriginEvent dragStartEventData)
                        then self\<lparr>dragHandler :=
                               on [(Drag, OnDragTop), (DragEnd, OnDragEndTop), (Click, OnClick)]
                                 (dragHandler self)\<rparr>
                        else self\<lparr>dragHandler :=
                               on [(Drag, OnDrag), (DragEnd, OnDragEnd), (Click, OnClick)]
                                 (dragHandler self)\<rparr>)
                 in fire (TimeResizeDragstart scheduleData) self)))"

definition TimeResize_onDrag :: "drag_event_data \<Rightarrow> time_resize \<Rightarrow> time_resize" where
  "TimeResize_onDrag dragEventData self =
     (case getScheduleDataFunc self of
        None \<Rightarrow> self
      | Some getScheduleDataFn \<Rightarrow>
         (case dragStart self of
            None \<Rightarrow> self
          | Some startScheduleData \<Rightarrow>
             (let (scheduleData, h) =
                    retriveScheduleData getScheduleDataFn (dragOriginEvent dragEventData)
                      (targetModelID startScheduleData, None) (heap self)
              in fire (TimeResizeDrag scheduleData) (self\<lparr>heap := h\<rparr>))))"

definition TimeResize_onDragTop :: "drag_event_data \<Rightarrow> time_resize \<Rightarrow> time_resize" where
  "TimeResize_onDragTop dragEventData self =
     (case getScheduleDataFunc self of
        None \<Rightarrow> self
      | Some getScheduleDataFn \<Rightarrow>
         (case dragStart self of
            None \<Rightarrow> self
          | Some startScheduleData \<Rightarrow>
             (let (scheduleData, h) =
                    retriveScheduleData getScheduleDataFn (dragOriginEvent dragEventData)
                      (targetModelID startScheduleData, None) (heap self)
              in fire (TimeResizeDragTop scheduleData) (self\<lparr>heap := h\<rparr>))))"


section \<open>The day/time-grid range updater\<close>

definition TimeResize_updateSchedule :: "dragend_data \<Rightarrow> time_resize \<Rightarrow> time_resize" where
  "TimeResize_updateSchedule scheduleData self =
     (let h = heap self;
          modelID = targetModelID scheduleData;
          rng = nearestRange scheduleData;
          timeDiff = getTime h (snd rng) - getTime h (fst rng)
      in case schedules_items self modelID of
           None \<Rightarrow> self
         | Some schedule \<Rightarrow>
            (let timeDiff = timeDiff - millisecondsFrom Minutes 30;
                 (baseDate, h) = new_TZDate (getDate (relatedView scheduleData)) h;
                 (dateEnd, h) = datetime_end baseDate h;
                 (newEnds, h) = new_TZDate (getTime h (ends schedule)) h;
                 h = addMilliseconds newEnds timeDiff h;
                 (newEnds, h) =
                    (if getTime h newEnds > getTime h dateEnd
                     then new_TZDate (getTime h dateEnd) h else (newEnds, h));
                 (newEnds, h) =
                    (if getTime h newEnds - getTime h (starts schedule) < millisecondsFrom Minutes 30
                     then (let (d, h) = new_TZDate (getTime h (starts schedule)) h
                           in (d, addMinutes d 30 h))
                     else (newEnds, h));
                 (nextDay, h) = new_TZDate (getTime h baseDate) h;
                 h = addDate nextDay 1 h;
                 (newEnds, h) =
                    (if getTime h newEnds > getTime h nextDay
                     then (let (d, h) = new_TZDate (getTime h baseDate) h;
                               h = addDate d 1 h
                           in (d, addMinutes d (- 1) h))
                     else (newEnds, h));
                 changes = getScheduleChanges schedule [End] [(End, newEnds)]
             in fire (BeforeUpdateSchedule schedule changes (starts schedule) newEnds)
                  (self\<lparr>heap := h\<rparr>)))"

definition TimeResize_updateScheduleTop :: "dragend_data \<Rightarrow> time_resize \<Rightarrow> time_resize" where
  "TimeResize_updateScheduleTop scheduleData self =
     (let h = heap self;
          modelID = targetModelID scheduleData;
          rng = nearestRange scheduleData;
          timeDiff = getTime h (snd rng) - getTime h (fst rng)
      in case schedules_items self modelID of
           None \<Rightarrow> self
         | Some schedule \<Rightarrow>
            (let timeDiff = timeDiff - millisecondsFrom Minutes 30;
                 (baseDate, h) = new_TZDate (getDate (relatedView scheduleData)) h;
                 (newStarts, h) = new_TZDate (getTime h (starts schedule)) h;
                 h = addMilliseconds newStarts timeDiff h;
                 (newStarts, h) =
                    (if getTime h newStarts < getTime h baseDate
                     then new_TZDate (getTime h baseDate) h else (newStarts, h));
                 (newStarts, h) =
                    (if getTime h (ends schedule) - getTime h newStarts < millisecondsFrom Minutes 30
                     then (let (d, h) = new_TZDate (getTime h (ends schedule)) h
                           in (d, addMinutes d (- 30) h))
                     else (newStarts, h));
                 (newStarts, h) =
                    (if getTime h newStarts < getTime h baseDate
                     then new_TZDate (getTime h baseDate) h else (newStarts, h));
                 changes = getScheduleChanges schedule [Start] [(Start, newStarts)]
             in fire (BeforeUpdateSchedule schedule changes newStarts (ends schedule))
                  (self\<lparr>heap := h\<rparr>)))"

text \<open>
  On release the handler first unsubscribes, then maps the pointer once more and builds
  the two ranges. \<open>nearestGridTimeY.addMinutes(30)\<close> moves the date the mapper has just
  made, in place.
\<close>

definition withRanges :: "schedule_data \<Rightarrow> msec \<times> tzdate \<Rightarrow> tzdate \<times> tzdate \<Rightarrow> dragend_data" where
  "withRanges sd r nr =
     \<lparr>relatedView = relatedView sd, originEvent = originEvent sd, timeY = timeY sd,
      nearestGridTimeY = nearestGridTimeY sd, targetModelID = targetModelID sd,
      scheduleOf = scheduleOf sd, timeRange = r, nearestRange = nr\<rparr>"

definition TimeResize_onDragEnd :: "drag_event_data \<Rightarrow> time_resize \<Rightarrow> time_resize" where
  "TimeResize_onDragEnd dragEndEventData self =
     (let getScheduleDataFn = getScheduleDataFunc self;
          startScheduleData = dragStart self;
          self = self\<lparr>dragHandler :=
                   off [(Drag, OnDrag), (DragEnd, OnDragEnd), (Click, OnClick)] (dragHandler self)\<rparr>
      in case getScheduleDataFn of
           None \<Rightarrow> self
         | Some getScheduleDataFn \<Rightarrow>
            (case startScheduleData of
               None \<Rightarrow> self
             | Some startScheduleData \<Rightarrow>
                (let (scheduleData, h) =
                       retriveScheduleData getScheduleDataFn (dragOriginEvent dragEndEventData)
                         (targetModelID startScheduleData, None) (heap self);
                     (rangeEnd, h) = new_TZDate (timeY scheduleData) h;
                     h = addMinutes rangeEnd 30 h;
                     h = addMinutes (nearestGridTimeY scheduleData) 30 h;
                     scheduleData =
                       withRanges scheduleData (timeY startScheduleData, rangeEnd)
                         (nearestGridTimeY startScheduleData, nearestGridTimeY scheduleData);
                     self = TimeResize_updateSchedule scheduleData (self\<lparr>heap := h\<rparr>);
                     self = fire (TimeResizeDragend scheduleData) self
                 in self\<lparr>getScheduleDataFunc := None, dragStart := None\<rparr>)))"

definition TimeResize_onDragEndTop :: "drag_event_data \<Rightarrow> time_resize \<Rightarrow> time_resize" where
  "TimeResize_onDragEndTop dragEndEventData self =
     (let getScheduleDataFn = getScheduleDataFunc self;
          startScheduleData = dragStart self;
          self = self\<lparr>dragHandler :=
                   off [(Drag, OnDragTop), (DragEnd, OnDragEndTop), (Click, OnClick)] (dragHandler self)\<rparr>
      in case getScheduleDataFn of
           None \<Rightarrow> self
         | Some getScheduleDataFn \<Rightarrow>
            (case startScheduleData of
               None \<Rightarrow> self
             | Some startScheduleData \<Rightarrow>
                (let (scheduleData, h) =
                       retriveScheduleData getScheduleDataFn (dragOriginEvent dragEndEventData)
                         (targetModelID startScheduleData, None) (heap self);
                     (rangeEnd, h) = new_TZDate (timeY scheduleData) h;
                     h = addMinutes rangeEnd 30 h;
                     h = addMinutes (nearestGridTimeY scheduleData) 30 h;
                     scheduleData =
                       withRanges scheduleData (timeY startScheduleData, rangeEnd)
                         (nearestGridTimeY startScheduleData, nearestGridTimeY scheduleData);
                     self = TimeResize_updateScheduleTop scheduleData (self\<lparr>heap := h\<rparr>);
                     self = fire (TimeResizeDragend scheduleData) self
                 in self\<lparr>getScheduleDataFunc := None, dragStart := None\<rparr>)))"

definition TimeResize_onClick :: "time_resize \<Rightarrow> time_resize" where
  "TimeResize_onClick self =
     (let self = self\<lparr>dragHandler :=
                   off [(Drag, OnDrag), (DragEnd, OnDragEnd), (Click, OnClick)] (dragHandler self)\<rparr>;
          self = self\<lparr>dragHandler :=
                   off [(Drag, OnDragTop), (DragEnd, OnDragEndTop), (Click, OnClick)] (dragHandler self)\<rparr>
      in fire TimeResizeClick self)"

text \<open>
  The gesture source calls, in the order of subscription, the handlers that are
  subscribed to the event when it is emitted.
\<close>

fun invoke :: "handler \<Rightarrow> drag_event_data \<Rightarrow> time_resize \<Rightarrow> time_resize" where
  "invoke OnDragStart d self = TimeResize_onDragStart d self"
| "invoke OnDrag d self = TimeResize_onDrag d self"
| "invoke OnDragTop d self = TimeResize_onDragTop d self"
| "invoke OnDragEnd d self = TimeResize_onDragEnd d self"
| "invoke OnDragEndTop d self = TimeResize_onDragEndTop d self"
| "invoke OnClick d self = TimeResize_onClick self"

definition subscribed :: "drag_event \<Rightarrow> subscriptions \<Rightarrow> handler list" where
  "subscribed name subs = map snd (filter (\<lambda>s. fst s = name) subs)"

definition dragHandler_fire :: "drag_event \<Rightarrow> drag_event_data \<Rightarrow> time_resize \<Rightarrow> time_resize" where
  "dragHandler_fire name d self =
     fold (\<lambda>hdl. invoke hdl d) (subscribed name (dragHandler self)) self"

fun gesture :: "(drag_event \<times> drag_event_data) list \<Rightarrow> time_resize \<Rightarrow> time_resize" where
  "gesture [] self = self"
| "gesture ((name, d) # evs) self = gesture evs (dragHandler_fire name d self)"


section \<open>The month/week-row variant\<close>

text \<open>
  Modelled from the spec: the month view's pointer mapper (\<open>month/core\<close>,
  \<open>getMousePosData\<close>) is not among the sources. It maps a pointer event to the grid
  cell and its date, or to nothing when the pointer is outside the grid. Of the element
  under the pointer the handler asks whether it carries the weekday resize-handle class
  and for the \<open>data-id\<close> of the enclosing \<open>.weekday-schedule-block\<close>.
\<close>

record month_view =
  getMousePosData :: "mouse_event \<Rightarrow> week_data option"

record week_drag_event_data =
  weekTarget :: week_element
  weekOriginEvent :: mouse_event

record week_cache =
  cacheSchedule :: "schedule option"
  cacheTarget :: string
  cacheStart :: tzdate

record week_cache_end = week_cache +
  cacheEnd :: tzdate

definition withEnd :: "week_cache \<Rightarrow> tzdate \<Rightarrow> week_cache_end" where
  "withEnd c e =
     \<lparr>cacheSchedule = cacheSchedule c, cacheTarget = cacheTarget c,
      cacheStart = cacheStart c, cacheEnd = e\<rparr>"

datatype week_handler = WeekOnDragStart | WeekOnDrag | WeekOnDragEnd

text \<open>
  Reading a property of \<open>undefined\<close> or \<open>null\<close> throws; the handler state at the
  throw is kept with the error.
\<close>

datatype error = TypeError

record week_resize =
  monthView :: month_view
  week_schedules_items :: "string \<rightharpoonup> schedule"
  getScheduleData :: "(mouse_event \<Rightarrow> week_data option) option"
  cache :: "week_cache option"
  week_dragHandler :: "(drag_event \<times> week_handler) list"
  week_fired :: "event list"
  week_heap :: store

type_synonym week_result = "error \<times> week_resize + week_resize"

definition week_fire :: "event \<Rightarrow> week_resize \<Rightarrow> week_resize" where
  "week_fire ev self = self\<lparr>week_fired := week_fired self @ [ev]\<rparr>"

definition WeekResize :: "month_view \<Rightarrow> (string \<rightharpoonup> schedule) \<Rightarrow> store \<Rightarrow> week_resize" where
  "WeekResize view schedules h =
     \<lparr>monthView = view, week_schedules_items = schedules, getScheduleData = None,
      cache = None, week_dragHandler = on [(DragStart, WeekOnDragStart)] [], week_fired = [],
      week_heap = h\<rparr>"

definition WeekResize_updateSchedule :: "week_cache_end \<Rightarrow> week_resize \<Rightarrow> week_result" where
  "WeekResize_updateSchedule scheduleCache self =
     (let h = week_heap self;
          (endCopy, h) = new_TZDate (getTime h (cacheEnd scheduleCache)) h;
          (newEnd, h) = datetime_end endCopy h
      in case cacheSchedule scheduleCache of
           None \<Rightarrow> Inl (TypeError, self\<lparr>week_heap := h\<rparr>)
         | Some schedule \<Rightarrow>
            (let changes = getScheduleChanges schedule [End] [(End, newEnd)];
                 (startCopy, h) = new_TZDate (getTime h (starts schedule)) h
             in Inr (week_fire (BeforeUpdateSchedule schedule changes startCopy newEnd)
                       (self\<lparr>week_heap := h\<rparr>))))"

definition WeekResize_onDragStart :: "week_drag_event_data \<Rightarrow> week_resize \<Rightarrow> week_result" where
  "WeekResize_onDragStart dragStartEvent self =
     (if \<not> hasWeekdayResizeHandleClass (weekTarget dragStartEvent) then Inr self
      else case closestWeekdayScheduleBlock (weekTarget dragStartEvent) of
             None \<Rightarrow> Inr self
           | Some modelID \<Rightarrow>
              (let schedule = week_schedules_items self modelID;
                   self = self\<lparr>week_dragHandler :=
                            on [(Drag, WeekOnDrag), (DragEnd, WeekOnDragEnd)] (week_dragHandler self)\<rparr>;
                   self = self\<lparr>getScheduleData := Some (getMousePosData (monthView self))\<rparr>
               in case getMousePosData (monthView self) (weekOriginEvent dragStartEvent) of
                    None \<Rightarrow> Inl (TypeError, self)
                  | Some scheduleData \<Rightarrow>
                     (let (start, h) = new_TZDate (date scheduleData) (week_heap self);
                          self = self\<lparr>cache := Some \<lparr>cacheSchedule = schedule, cacheTarget = modelID,
                                                     cacheStart = start\<rparr>,
                                      week_heap := h\<rparr>
                      in Inr (week_fire (WeekResizeDragstart scheduleData modelID schedule) self))))"

definition WeekResize_onDrag :: "week_drag_event_data \<Rightarrow> week_resize \<Rightarrow> week_result" where
  "WeekResize_onDrag dragEvent self =
     (case getScheduleData self of
        None \<Rightarrow> Inr self
      | Some getData \<Rightarrow>
         (case getData (weekOriginEvent dragEvent) of
            None \<Rightarrow> Inr self
          | Some scheduleData \<Rightarrow> Inr (week_fire (WeekResizeDrag scheduleData) self)))"

text \<open>
  On release: unsubscribe; without a mapper, return. If the pointer maps to a date,
  compare it with the schedule's start and update when the start is not later. Then fire
  \<open>WeekResizeDragend\<close> and clear the session.
\<close>

definition WeekResize_onDragEnd :: "week_drag_event_data \<Rightarrow> week_resize \<Rightarrow> week_result" where
  "WeekResize_onDragEnd dragEndEvent self =
     (let cache0 = cache self;
          self = self\<lparr>week_dragHandler :=
                   off [(Drag, WeekOnDrag), (DragEnd, WeekOnDragEnd)] (week_dragHandler self)\<rparr>
      in case getScheduleData self of
           None \<Rightarrow> Inr self
         | Some getData \<Rightarrow>
            (let scheduleData = getData (weekOriginEvent dragEndEvent);
                 updated =
                   (case scheduleData of
                      None \<Rightarrow> Inr self
                    | Some sd \<Rightarrow>
                       (case cache0 of
                          None \<Rightarrow> Inl (TypeError, self)
                        | Some c \<Rightarrow>
                           (case cacheSchedule c of
                              None \<Rightarrow> Inl (TypeError, self)
                            | Some schedule \<Rightarrow>
                               (let h = week_heap self;
                                    (start, h) = new_TZDate (getTime h (starts schedule)) h;
                                    (end0, h) = new_TZDate (date sd) h;
                                    c = withEnd c end0;
                                    self = self\<lparr>week_heap := h\<rparr>
                                in if getTime h start \<le> getTime h (cacheEnd c)
                                   then WeekResize_updateSchedule c self
                                   else Inr self))))
             in case updated of
                  Inl err \<Rightarrow> Inl err
                | Inr self \<Rightarrow>
                   Inr ((week_fire (WeekResizeDragend scheduleData) self)
                          \<lparr>getScheduleData := None, cache := None\<rparr>)))"

fun week_invoke :: "week_handler \<Rightarrow> week_drag_event_data \<Rightarrow> week_resize \<Rightarrow> week_result" where
  "week_invoke WeekOnDragStart d self = WeekResize_onDragStart d self"
| "week_invoke WeekOnDrag d self = WeekResize_onDrag d self"
| "week_invoke WeekOnDragEnd d self = WeekResize_onDragEnd d self"

text \<open>
  An error thrown by a handler leaves the emitter: the handlers after it are not called
  for this event.
\<close>

fun week_invoke_all :: "week_handler list \<Rightarrow> week_drag_event_data \<Rightarrow> week_resize \<Rightarrow> week_result" where
  "week_invoke_all [] d self = Inr self"
| "week_invoke_all (hdl # hdls) d self =
     (case week_invoke hdl d self of
        Inl err \<Rightarrow> Inl err
      | Inr self \<Rightarrow> week_invoke_all hdls d self)"

definition week_dragHandler_fire ::
  "drag_event \<Rightarrow> week_drag_event_data \<Rightarrow> week_resize \<Rightarrow> week_result" where
  "week_dragHandler_fire name d self =
     week_invoke_all (map snd (filter (\<lambda>s. fst s = name) (week_dragHandler self))) d self"

definition state_of :: "week_result \<Rightarrow> week_resize" where
  "state_of r = (case r of Inl err \<Rightarrow> snd err | Inr self \<Rightarrow> self)"

fun week_gesture :: "(drag_event \<times> week_drag_event_data) list \<Rightarrow> week_resize \<Rightarrow> week_resize" where
  "week_gesture [] self = self"
| "week_gesture ((name, d) # evs) self =
     week_gesture evs (state_of (week_dragHandler_fire name d self))"


section \<open>Notions used in the statements\<close>

text \<open>
  A drag-end resolves a schedule when a session is open (both session fields are set),
  the session's model id is in the controller's collection, and the dates involved are
  objects of the store.
\<close>

definition resolves :: "time_resize \<Rightarrow> time_view \<Rightarrow> schedule_data \<Rightarrow> schedule \<Rightarrow> bool" where
  "resolves self v ds s \<longleftrightarrow>
     getScheduleDataFunc self = Some v \<and> dragStart self = Some ds \<and>
     schedules_items self (targetModelID ds) = Some s \<and>
     starts s < length (heap self) \<and> ends s < length (heap self) \<and>
     nearestGridTimeY ds < length (heap self)"

text \<open>
  The instants that \<open>_updateScheduleTop\<close> and \<open>_updateSchedule\<close> leave in
  \<open>newStarts\<close> and \<open>newEnds\<close>, as functions of the base date, the schedule's start
  and end and the time difference: the three clamps of each, in the source's order.
  Lemmas \<open>onDragEndTop_fires\<close> and \<open>onDragEnd_fires\<close> show that the handlers
  compute them.
\<close>

definition newStarts_ms :: "msec \<Rightarrow> msec \<Rightarrow> msec \<Rightarrow> msec \<Rightarrow> msec" where
  "newStarts_ms b s e timeDiff =
     (let n = s + timeDiff;
          n = (if n < b then b else n);
          n = (if e - n < 1800000 then e - 1800000 else n)
      in if n < b then b else n)"

definition newEnds_ms :: "msec \<Rightarrow> msec \<Rightarrow> msec \<Rightarrow> msec \<Rightarrow> msec" where
  "newEnds_ms b s e timeDiff =
     (let n = e + timeDiff;
          n = (if n > end_of_day b then end_of_day b else n);
          n = (if n - s < 1800000 then s + 1800000 else n)
      in if n > b + 86400000 then b + 86400000 - 60000 else n)"

text \<open>
  Concrete inputs: a view with base date \<open>b\<close> that shows one minute per pixel and
  snaps to a grid of \<open>g\<close> minutes; a controller with the single schedule \<open>''1''\<close>,
  whose start and end are the dates 0 and 1 of the store; a pointer event on the resize
  handle of that schedule's block.
\<close>

definition demo_view :: "msec \<Rightarrow> int \<Rightarrow> time_view" where
  "demo_view b g =
     \<lparr>getDate = b,
      pointToTime = (\<lambda>e. (b + \<lfloor>clientY e\<rfloor> * 60000, b + (\<lfloor>clientY e\<rfloor> div g) * g * 60000))\<rparr>"

definition demo_schedule :: schedule where
  "demo_schedule = \<lparr>cid = ''1'', starts = 0, ends = 1\<rparr>"

definition demo_resize :: "msec \<Rightarrow> int \<Rightarrow> msec \<Rightarrow> msec \<Rightarrow> time_resize" where
  "demo_resize b g s e = TimeResize [0 \<mapsto> demo_view b g] [''1'' \<mapsto> demo_schedule] [s, e]"

definition demo_pointer :: "real \<Rightarrow> real \<Rightarrow> real \<Rightarrow> drag_event_data" where
  "demo_pointer tp ht y =
     \<lparr>target = \<lparr>hasResizeHandleClass = True, closestTimeDate = Some (Some 0),
                closestScheduleBlock = Some \<lparr>rect_top = tp, rect_height = ht, data_id = ''1''\<rparr>\<rparr>,
      dragOriginEvent = \<lparr>clientX = 0, clientY = y\<rparr>\<rparr>"

definition demo_data :: "msec \<Rightarrow> int \<Rightarrow> real \<Rightarrow> schedule_data" where
  "demo_data b g y =
     \<lparr>relatedView = demo_view b g, originEvent = \<lparr>clientX = 0, clientY = y\<rparr>, timeY = b + \<lfloor>y\<rfloor> * 60000,
      nearestGridTimeY = 2, targetModelID = ''1'', scheduleOf = Some demo_schedule\<rparr>"

definition demo_stray_pointer :: "real \<Rightarrow> real \<Rightarrow> real \<Rightarrow> drag_event_data" where
  "demo_stray_pointer tp ht y =
     \<lparr>target = \<lparr>hasResizeHandleClass = True, closestTimeDate = Some (Some 0),
                closestScheduleBlock = Some \<lparr>rect_top = tp, rect_height = ht, data_id = ''2''\<rparr>\<rparr>,
      dragOriginEvent = \<lparr>clientX = 0, clientY = y\<rparr>\<rparr>"

text \<open>
  For the month variant: a view of one week row with columns of 100 pixels, whose mapper
  gives the end of the day of the column; the same controller; a pointer event on the
  resize handle of the block with the given \<open>data-id\<close>.
\<close>

definition demo_month_view :: month_view where
  "demo_month_view =
     \<lparr>getMousePosData = (\<lambda>e. if 0 \<le> clientX e \<and> clientX e < 700
          then Some \<lparr>gridX = nat \<lfloor>clientX e / 100\<rfloor>, gridY = 0,
                     date = \<lfloor>clientX e / 100\<rfloor> * 86400000 + 86399000\<rparr>
          else None)\<rparr>"

definition demo_week_resize :: "msec \<Rightarrow> msec \<Rightarrow> week_resize" where
  "demo_week_resize s e = WeekResize demo_month_view [''1'' \<mapsto> demo_schedule] [s, e]"

definition demo_week_pointer :: "string \<Rightarrow> real \<Rightarrow> week_drag_event_data" where
  "demo_week_pointer i x =
     \<lparr>weekTarget = \<lparr>hasWeekdayResizeHandleClass = True, closestWeekdayScheduleBlock = Some i\<rparr>,
      weekOriginEvent = \<lparr>clientX = x, clientY = 0\<rparr>\<rparr>"

text \<open>
  For the classifier: a schedule block whose top and height are the doubles nearest to
  100.1 and 257.8, and a pointer event on its resize handle at height \<open>y\<close>.
\<close>

definition demo_fraction_block :: block_element where
  "demo_fraction_block =
     \<lparr>rect_top = 3521955646092083 / 35184372088832,
      rect_height = 4535265562250445 / 17592186044416, data_id = ''1''\<rparr>"

definition demo_fraction_pointer :: "real \<Rightarrow> drag_event_data" where
  "demo_fraction_pointer y =
     \<lparr>target = \<lparr>hasResizeHandleClass = True, closestTimeDate = Some (Some 0),
                closestScheduleBlock = Some demo_fraction_block\<rparr>,
      dragOriginEvent = \<lparr>clientX = 0, clientY = y\<rparr>\<rparr>"

text \<open>
  The store \<open>h'\<close> preserves the store \<open>h\<close> when every date object of \<open>h\<close> is in
  \<open>h'\<close> with the instant it has in \<open>h\<close>. The events \<open>after\<close> add to the change
  requests of \<open>before\<close> only requests whose changes object has the single property
  \<open>f\<close>.
\<close>

definition preserved :: "store \<Rightarrow> store \<Rightarrow> bool" where
  "preserved h h' \<longleftrightarrow> take (length h) h' = h"

definition requestsOnly :: "field \<Rightarrow> event list \<Rightarrow> event list \<Rightarrow> bool" where
  "requestsOnly f before after \<longleftrightarrow>
     take (length (changeRequests before)) (changeRequests after) = changeRequests before \<and>
     list_all (\<lambda>cr. map fst (fst (snd cr)) = [f])
       (drop (length (changeRequests before)) (changeRequests after))"



section \<open>Lemmas on double arithmetic\<close>

text \<open>
  A number between \<open>2 ^ n\<close> and \<open>2 ^ (n + 1)\<close> is rounded to a multiple of
  \<open>2 ^ n / 2 ^ 52\<close>; integers below \<open>2 ^ 53\<close> are doubles.
\<close>

lemma roundTiesToEven_of_int [simp]: "roundTiesToEven (of_int k) = k"
  by (simp add: roundTiesToEven_def)

lemma floor_log2_eq:
  assumes "2 ^ n \<le> x" and "x < 2 ^ Suc n"
  shows "\<lfloor>log 2 x\<rfloor> = int n"
proof -
  have pos: "0 < x" using assms(1) by (smt (verit) zero_less_power)
  have a: "real n \<le> log 2 x"
    using assms(1) pos by (simp add: le_log_iff powr_realpow)
  have b: "log 2 x < real n + 1"
    using assms(2) pos by (simp add: log_less_iff powr_realpow powr_add)
  show ?thesis using a b by (simp add: floor_eq_iff)
qed

lemma double_round_eval:
  assumes "2 ^ n \<le> \<bar>x\<bar>" and "\<bar>x\<bar> < 2 ^ Suc n" and "n \<le> 52"
  shows "double_round x = of_int (roundTiesToEven (x * 2 ^ (52 - n))) / 2 ^ (52 - n)"
proof -
  have nz: "x \<noteq> 0" using assms(1) by (smt (verit) zero_less_power)
  have fl: "\<lfloor>log 2 \<bar>x\<bar>\<rfloor> = int n" using assms(1,2) by (rule floor_log2_eq)
  have e: "real n - 52 = - real (52 - n)" using assms(3) by simp
  have p: "2 powr (real n - 52) = 1 / (2::real) ^ (52 - n)"
    unfolding e by (simp add: powr_minus powr_realpow divide_simps)
  show ?thesis
    by (simp add: double_round_def nz fl p Let_def)
qed

lemma double_round_int:
  assumes "x \<in> \<int>" and "\<bar>x\<bar> < 2 ^ 53"
  shows "double_round x = x"
proof (cases "x = 0")
  case True
  then show ?thesis by (simp add: double_round_def)
next
  case False
  from assms(1) obtain k :: int where k: "x = of_int k" by (auto elim: Ints_cases)
  with False have k1: "1 \<le> \<bar>k\<bar>" by simp
  have "1 \<le> nat \<bar>k\<bar>" using k1 by simp
  with ex_power_ivl1 [of 2 "nat \<bar>k\<bar>"]
  obtain n where n: "(2::nat) ^ n \<le> nat \<bar>k\<bar>" "nat \<bar>k\<bar> < (2::nat) ^ (n + 1)"
    by auto
  have lo: "(2::real) ^ n \<le> \<bar>x\<bar>"
  proof -
    have "real (2 ^ n) \<le> real (nat \<bar>k\<bar>)" using n(1) by (simp only: of_nat_le_iff)
    then show ?thesis using k by simp
  qed
  have hi: "\<bar>x\<bar> < (2::real) ^ Suc n"
  proof -
    have "real (nat \<bar>k\<bar>) < real (2 ^ (n + 1))" using n(2) by (simp only: of_nat_less_iff)
    then show ?thesis using k by simp
  qed
  have "(2::real) ^ n < 2 ^ 53" using lo assms(2) by (rule le_less_trans)
  then have "n < 53" by (rule power_less_imp_less_exp [rotated]) simp
  then have n52: "n \<le> 52" by simp
  have "x * 2 ^ (52 - n) = of_int (k * 2 ^ (52 - n))" using k by simp
  then have "roundTiesToEven (x * 2 ^ (52 - n)) = k * 2 ^ (52 - n)"
    by (simp only: roundTiesToEven_of_int)
  then show ?thesis
    using double_round_eval [OF lo hi n52] k by simp
qed


section \<open>Lemmas on the store and the updaters\<close>

lemmas store_defs = new_TZDate_def getTime_def addMilliseconds_def addMinutes_def addDate_def
  datetime_end_def

lemmas time_defs =
  TimeResize_def dragHandler_fire_def subscribed_def on_def off_def checkExpectCondition_def
  isDraggingTop_def blockElementDraggingTopThreshold_def retriveScheduleData_def withRanges_def
  fire_def getScheduleChanges_def double_round_int
  TimeResize_onDragStart_def TimeResize_onDrag_def TimeResize_onDragTop_def
  TimeResize_onDragEnd_def TimeResize_onDragEndTop_def TimeResize_onClick_def
  TimeResize_updateSchedule_def TimeResize_updateScheduleTop_def

lemmas demo_defs = demo_view_def demo_schedule_def demo_resize_def demo_pointer_def demo_data_def
  demo_stray_pointer_def start_of_day_def end_of_day_def resolves_def

lemmas week_defs = WeekResize_def week_fire_def week_dragHandler_fire_def on_def off_def
  withEnd_def getScheduleChanges_def
  WeekResize_updateSchedule_def WeekResize_onDragStart_def WeekResize_onDrag_def
  WeekResize_onDragEnd_def
  demo_month_view_def demo_week_resize_def demo_week_pointer_def demo_schedule_def

lemma changeRequests_append [simp]:
  "changeRequests (xs @ ys) = changeRequests xs @ changeRequests ys"
  by (induction xs rule: changeRequests.induct) simp_all

lemma end_of_day_less_next: "end_of_day b < b + 86400000"
proof -
  have "0 \<le> b mod 86400000" by simp
  then show ?thesis by (simp add: end_of_day_def start_of_day_def)
qed

lemma onDragEndTop_fires:
  assumes "resolves self v ds s"
  shows "\<exists>ns. changeRequests (fired (TimeResize_onDragEndTop ev self)) =
            changeRequests (fired self) @ [(s, [(Start, ns)], ns, ends s)]
          \<and> getTime (heap (TimeResize_onDragEndTop ev self)) ns =
              newStarts_ms (getDate v) (getTime (heap self) (starts s)) (getTime (heap self) (ends s))
                (snd (pointToTime v (dragOriginEvent ev)) - getTime (heap self) (nearestGridTimeY ds))
          \<and> getTime (heap (TimeResize_onDragEndTop ev self)) (ends s) = getTime (heap self) (ends s)"
  using assms
  by (simp add: resolves_def TimeResize_onDragEndTop_def TimeResize_updateScheduleTop_def
        newStarts_ms_def Let_def store_defs retriveScheduleData_def withRanges_def
        getScheduleChanges_def fire_def nth_append split: prod.splits)

lemma onDragEnd_fires:
  assumes "resolves self v ds s"
  shows "\<exists>ne. changeRequests (fired (TimeResize_onDragEnd ev self)) =
            changeRequests (fired self) @ [(s, [(End, ne)], starts s, ne)]
          \<and> getTime (heap (TimeResize_onDragEnd ev self)) ne =
              newEnds_ms (getDate v) (getTime (heap self) (starts s)) (getTime (heap self) (ends s))
                (snd (pointToTime v (dragOriginEvent ev)) - getTime (heap self) (nearestGridTimeY ds))
          \<and> getTime (heap (TimeResize_onDragEnd ev self)) (starts s) = getTime (heap self) (starts s)"
  using assms
  by (simp add: resolves_def TimeResize_onDragEnd_def TimeResize_updateSchedule_def
        newEnds_ms_def Let_def store_defs retriveScheduleData_def withRanges_def
        getScheduleChanges_def fire_def nth_append split: prod.splits)


lemma start_of_day_le: "start_of_day b \<le> b"
proof -
  have "0 \<le> b mod 86400000" by simp
  then show ?thesis by (simp add: start_of_day_def)
qed

lemma newStarts_ms_ge_base: "b \<le> newStarts_ms b s e td"
  by (simp add: newStarts_ms_def Let_def)


lemma newStarts_ms_min_duration:
  "b + 1800000 \<le> e \<Longrightarrow> 1800000 \<le> e - newStarts_ms b s e td"
  by (simp add: newStarts_ms_def Let_def)

lemma newStarts_ms_day_start:
  "e < b + 1800000 \<Longrightarrow> newStarts_ms b s e td = b"
  by (simp add: newStarts_ms_def Let_def)

lemma newEnds_ms_min_duration:
  "s + 1800000 \<le> b + 86400000 \<Longrightarrow> 1800000 \<le> newEnds_ms b s e td - s"
  using end_of_day_less_next [of b] by (simp add: newEnds_ms_def Let_def)

lemma newEnds_ms_day_end:
  "b + 86400000 < s + 1800000 \<Longrightarrow> newEnds_ms b s e td = b + 86400000 - 60000"
  using end_of_day_less_next [of b] by (simp add: newEnds_ms_def Let_def)

lemma newEnds_ms_le_next_day: "newEnds_ms b s e td \<le> b + 86400000"
  using end_of_day_less_next [of b] by (simp add: newEnds_ms_def Let_def)

lemma newEnds_ms_le_end_of_day:
  "start_of_day b = b \<Longrightarrow> s + 1800000 \<le> end_of_day b \<or> b + 86400000 < s + 1800000 \<Longrightarrow>
   newEnds_ms b s e td \<le> end_of_day b"
  using end_of_day_less_next [of b] by (auto simp add: newEnds_ms_def Let_def end_of_day_def)

lemma newEnds_ms_last_second:
  "end_of_day b < s + 1800000 \<Longrightarrow> s + 1800000 \<le> b + 86400000 \<Longrightarrow>
   newEnds_ms b s e td = s + 1800000"
  by (simp add: newEnds_ms_def Let_def)

lemma newEnds_ms_plain:
  "s + 1800000 \<le> e + td \<Longrightarrow> e + td \<le> end_of_day b \<Longrightarrow> newEnds_ms b s e td = e + td"
  using end_of_day_less_next [of b] by (simp add: newEnds_ms_def Let_def)


section \<open>The day/time-grid variant: the start edge\<close>

text \<open>
  C4. Every drag-end of a top-edge drag that resolves a schedule emits one change
  request; it changes only \<open>start\<close>, and the new start is not earlier than the view's
  base date, hence not earlier than the start of the base date's calendar day, wherever
  the pointer is released. The second day-start clamp, after the minimum-duration clamp,
  is what makes this hold for a schedule that ends less than 30 minutes into the day.
\<close>

theorem C4_newStart_not_before_day_start:
  assumes "resolves self v ds s"
  shows "\<exists>ns. changeRequests (fired (TimeResize_onDragEndTop ev self)) =
            changeRequests (fired self) @ [(s, [(Start, ns)], ns, ends s)]
          \<and> getDate v \<le> getTime (heap (TimeResize_onDragEndTop ev self)) ns
          \<and> start_of_day (getDate v) \<le> getTime (heap (TimeResize_onDragEndTop ev self)) ns"
proof -
  from onDragEndTop_fires [OF assms, of ev] obtain ns where
    cr: "changeRequests (fired (TimeResize_onDragEndTop ev self)) =
           changeRequests (fired self) @ [(s, [(Start, ns)], ns, ends s)]"
    and v: "getTime (heap (TimeResize_onDragEndTop ev self)) ns =
           newStarts_ms (getDate v) (getTime (heap self) (starts s)) (getTime (heap self) (ends s))
             (snd (pointToTime v (dragOriginEvent ev)) - getTime (heap self) (nearestGridTimeY ds))"
    by blast
  have "getDate v \<le> getTime (heap (TimeResize_onDragEndTop ev self)) ns"
    unfolding v by (rule newStarts_ms_ge_base)
  moreover have "start_of_day (getDate v) \<le> getDate v"
    by (rule start_of_day_le)
  ultimately show ?thesis using cr by fastforce
qed

text \<open>
  The schedule 09:00 to 10:00 of day 0, pressed in the upper half of its block and
  released 100 pixels above the top of the grid.
\<close>

theorem C4_witness:
  "resolves (dragHandler_fire DragStart (demo_pointer 540 60 545) (demo_resize 0 30 32400000 36000000))
      (demo_view 0 30) (demo_data 0 30 545) demo_schedule
   \<and> (\<exists>ns. changeRequests (fired (TimeResize_onDragEndTop (demo_pointer 540 60 (- 100))
               (dragHandler_fire DragStart (demo_pointer 540 60 545) (demo_resize 0 30 32400000 36000000)))) =
            changeRequests (fired (dragHandler_fire DragStart (demo_pointer 540 60 545) (demo_resize 0 30 32400000 36000000)))
               @ [(demo_schedule, [(Start, ns)], ns, ends demo_schedule)]
          \<and> getDate (demo_view 0 30) \<le> getTime (heap (TimeResize_onDragEndTop (demo_pointer 540 60 (- 100))
               (dragHandler_fire DragStart (demo_pointer 540 60 545) (demo_resize 0 30 32400000 36000000)))) ns
          \<and> start_of_day (getDate (demo_view 0 30)) \<le> getTime (heap (TimeResize_onDragEndTop (demo_pointer 540 60 (- 100))
               (dragHandler_fire DragStart (demo_pointer 540 60 545) (demo_resize 0 30 32400000 36000000)))) ns)"
proof -
  have h: "resolves (dragHandler_fire DragStart (demo_pointer 540 60 545) (demo_resize 0 30 32400000 36000000))
      (demo_view 0 30) (demo_data 0 30 545) demo_schedule"
    by (simp add: demo_defs time_defs store_defs Let_def)
  from h C4_newStart_not_before_day_start [OF h, of "demo_pointer 540 60 (- 100)"]
  show ?thesis by (rule conjI)
qed


text \<open>
  C1, as stated, fails: the day-start clamp is the last one, so for a schedule that ends
  less than 30 minutes after the base date the emitted start is the base date and the
  schedule is left shorter than 30 minutes. Shown on a schedule from 00:00 to 00:10 of
  day 0, pressed in the upper half of its block and released without moving: the request
  carries the start 00:00, ten minutes before the end.
\<close>

theorem C1_counterexample:
  defines "st \<equiv> gesture [(DragStart, demo_pointer 0 10 2), (DragEnd, demo_pointer 0 10 2)]
              (demo_resize 0 30 0 600000)"
  shows "changeRequests (fired st) = [(demo_schedule, [(Start, 8)], 8, 1)]
         \<and> getTime (heap st) 8 = 0 \<and> getTime (heap st) 1 = 600000
         \<and> \<not> 1800000 \<le> getTime (heap st) 1 - getTime (heap st) 8"
  unfolding st_def
  by (simp add: demo_defs time_defs store_defs Let_def)

text \<open>
  C1, amended. Every drag-end of a top-edge drag that resolves a schedule emits one
  change request, of the start only. If the schedule ends at least 30 minutes after the
  view's base date, then \<open>end - newStart \<ge> 30 minutes\<close> after all clamping. If it ends
  earlier than that, the day-start clamp decides and the new start is the base date.
\<close>

theorem C1_min_duration_unless_day_start:
  assumes "resolves self v ds s"
  shows "\<exists>ns. changeRequests (fired (TimeResize_onDragEndTop ev self)) =
            changeRequests (fired self) @ [(s, [(Start, ns)], ns, ends s)]
          \<and> (getDate v + 1800000 \<le> getTime (heap self) (ends s) \<longrightarrow>
               1800000 \<le> getTime (heap (TimeResize_onDragEndTop ev self)) (ends s)
                           - getTime (heap (TimeResize_onDragEndTop ev self)) ns)
          \<and> (getTime (heap self) (ends s) < getDate v + 1800000 \<longrightarrow>
               getTime (heap (TimeResize_onDragEndTop ev self)) ns = getDate v)"
proof -
  from onDragEndTop_fires [OF assms, of ev] obtain ns where
    cr: "changeRequests (fired (TimeResize_onDragEndTop ev self)) =
           changeRequests (fired self) @ [(s, [(Start, ns)], ns, ends s)]"
    and v: "getTime (heap (TimeResize_onDragEndTop ev self)) ns =
           newStarts_ms (getDate v) (getTime (heap self) (starts s)) (getTime (heap self) (ends s))
             (snd (pointToTime v (dragOriginEvent ev)) - getTime (heap self) (nearestGridTimeY ds))"
    and e: "getTime (heap (TimeResize_onDragEndTop ev self)) (ends s) = getTime (heap self) (ends s)"
    by blast
  show ?thesis
    using cr by (auto simp add: v e newStarts_ms_min_duration newStarts_ms_day_start)
qed

text \<open>
  Both cases: the schedule 09:00 to 10:00 with the top edge dragged down to 11:40, and
  the schedule of the counterexample.
\<close>

theorem C1_witness:
  defines "st \<equiv> dragHandler_fire DragStart (demo_pointer 540 60 545) (demo_resize 0 30 32400000 36000000)"
    and "st2 \<equiv> dragHandler_fire DragStart (demo_pointer 0 10 2) (demo_resize 0 30 0 600000)"
  shows "resolves st (demo_view 0 30) (demo_data 0 30 545) demo_schedule
   \<and> getDate (demo_view 0 30) + 1800000 \<le> getTime (heap st) (ends demo_schedule)
   \<and> (\<exists>ns. changeRequests (fired (TimeResize_onDragEndTop (demo_pointer 540 60 700) st)) =
            changeRequests (fired st) @ [(demo_schedule, [(Start, ns)], ns, ends demo_schedule)]
          \<and> 1800000 \<le> getTime (heap (TimeResize_onDragEndTop (demo_pointer 540 60 700) st)) (ends demo_schedule)
                           - getTime (heap (TimeResize_onDragEndTop (demo_pointer 540 60 700) st)) ns)
   \<and> resolves st2 (demo_view 0 30) (demo_data 0 30 2) demo_schedule
   \<and> getTime (heap st2) (ends demo_schedule) < getDate (demo_view 0 30) + 1800000
   \<and> (\<exists>ns. changeRequests (fired (TimeResize_onDragEndTop (demo_pointer 0 10 2) st2)) =
            changeRequests (fired st2) @ [(demo_schedule, [(Start, ns)], ns, ends demo_schedule)]
          \<and> getTime (heap (TimeResize_onDragEndTop (demo_pointer 0 10 2) st2)) ns = getDate (demo_view 0 30))"
proof -
  have h: "resolves st (demo_view 0 30) (demo_data 0 30 545) demo_schedule"
    unfolding st_def by (simp add: demo_defs time_defs store_defs Let_def)
  have e: "getDate (demo_view 0 30) + 1800000 \<le> getTime (heap st) (ends demo_schedule)"
    unfolding st_def by (simp add: demo_defs time_defs store_defs Let_def)
  have h2: "resolves st2 (demo_view 0 30) (demo_data 0 30 2) demo_schedule"
    unfolding st2_def by (simp add: demo_defs time_defs store_defs Let_def)
  have e2: "getTime (heap st2) (ends demo_schedule) < getDate (demo_view 0 30) + 1800000"
    unfolding st2_def by (simp add: demo_defs time_defs store_defs Let_def)
  from C1_min_duration_unless_day_start [OF h, of "demo_pointer 540 60 700"]
    C1_min_duration_unless_day_start [OF h2, of "demo_pointer 0 10 2"] h e h2 e2
  show ?thesis by blast
qed


section \<open>The day/time-grid variant: the end edge\<close>

text \<open>
  C2, as stated, fails: the clamp to the base date plus one day, minus one minute, is
  the last one, so for a schedule that starts after 23:30 of the base date the emitted
  end is 23:59 and the schedule is left shorter than 30 minutes. Shown on a schedule
  from 23:45 to 23:55 of day 0, pressed in the lower half of its block and released
  without moving: the request moves the end to 23:59, fourteen minutes after the start.
\<close>

theorem C2_counterexample:
  defines "st \<equiv> gesture [(DragStart, demo_pointer 1425 10 1433), (DragEnd, demo_pointer 1425 10 1433)]
              (demo_resize 0 30 85500000 86100000)"
  shows "changeRequests (fired st) = [(demo_schedule, [(End, 10)], 0, 10)]
         \<and> getTime (heap st) 10 = 86340000 \<and> getTime (heap st) 0 = 85500000
         \<and> \<not> 1800000 \<le> getTime (heap st) 10 - getTime (heap st) 0"
  unfolding st_def
  by (simp add: demo_defs time_defs store_defs Let_def)

text \<open>
  C2, amended. Every drag-end of a bottom-edge drag that resolves a schedule emits one
  change request, of the end only. If the schedule's start plus 30 minutes is not after
  the base date plus one day, then \<open>newEnd - start \<ge> 30 minutes\<close> after all clamping.
  If it is after, the final clamp decides and the new end is the base date plus one day
  minus one minute.
\<close>

theorem C2_min_duration_unless_day_end:
  assumes "resolves self v ds s"
  shows "\<exists>ne. changeRequests (fired (TimeResize_onDragEnd ev self)) =
            changeRequests (fired self) @ [(s, [(End, ne)], starts s, ne)]
          \<and> (getTime (heap self) (starts s) + 1800000 \<le> getDate v + 86400000 \<longrightarrow>
               1800000 \<le> getTime (heap (TimeResize_onDragEnd ev self)) ne
                           - getTime (heap (TimeResize_onDragEnd ev self)) (starts s))
          \<and> (getDate v + 86400000 < getTime (heap self) (starts s) + 1800000 \<longrightarrow>
               getTime (heap (TimeResize_onDragEnd ev self)) ne = getDate v + 86400000 - 60000)"
proof -
  from onDragEnd_fires [OF assms, of ev] obtain ne where
    cr: "changeRequests (fired (TimeResize_onDragEnd ev self)) =
           changeRequests (fired self) @ [(s, [(End, ne)], starts s, ne)]"
    and v: "getTime (heap (TimeResize_onDragEnd ev self)) ne =
           newEnds_ms (getDate v) (getTime (heap self) (starts s)) (getTime (heap self) (ends s))
             (snd (pointToTime v (dragOriginEvent ev)) - getTime (heap self) (nearestGridTimeY ds))"
    and e: "getTime (heap (TimeResize_onDragEnd ev self)) (starts s) = getTime (heap self) (starts s)"
    by blast
  show ?thesis
    using cr by (auto simp add: v e newEnds_ms_min_duration newEnds_ms_day_end)
qed

text \<open>
  Both cases: the schedule 09:00 to 10:00 with the bottom edge dragged up to 08:00, and
  the schedule of the counterexample.
\<close>

theorem C2_witness:
  defines "st \<equiv> dragHandler_fire DragStart (demo_pointer 540 60 599) (demo_resize 0 30 32400000 36000000)"
    and "st2 \<equiv> dragHandler_fire DragStart (demo_pointer 1425 10 1433) (demo_resize 0 30 85500000 86100000)"
  shows "resolves st (demo_view 0 30) (demo_data 0 30 599) demo_schedule
   \<and> getTime (heap st) (starts demo_schedule) + 1800000 \<le> getDate (demo_view 0 30) + 86400000
   \<and> (\<exists>ne. changeRequests (fired (TimeResize_onDragEnd (demo_pointer 540 60 500) st)) =
            changeRequests (fired st) @ [(demo_schedule, [(End, ne)], starts demo_schedule, ne)]
          \<and> 1800000 \<le> getTime (heap (TimeResize_onDragEnd (demo_pointer 540 60 500) st)) ne
                           - getTime (heap (TimeResize_onDragEnd (demo_pointer 540 60 500) st)) (starts demo_schedule))
   \<and> resolves st2 (demo_view 0 30) (demo_data 0 30 1433) demo_schedule
   \<and> getDate (demo_view 0 30) + 86400000 < getTime (heap st2) (starts demo_schedule) + 1800000
   \<and> (\<exists>ne. changeRequests (fired (TimeResize_onDragEnd (demo_pointer 1425 10 1433) st2)) =
            changeRequests (fired st2) @ [(demo_schedule, [(End, ne)], starts demo_schedule, ne)]
          \<and> getTime (heap (TimeResize_onDragEnd (demo_pointer 1425 10 1433) st2)) ne
               = getDate (demo_view 0 30) + 86400000 - 60000)"
proof -
  have h: "resolves st (demo_view 0 30) (demo_data 0 30 599) demo_schedule"
    unfolding st_def by (simp add: demo_defs time_defs store_defs Let_def)
  have e: "getTime (heap st) (starts demo_schedule) + 1800000 \<le> getDate (demo_view 0 30) + 86400000"
    unfolding st_def by (simp add: demo_defs time_defs store_defs Let_def)
  have h2: "resolves st2 (demo_view 0 30) (demo_data 0 30 1433) demo_schedule"
    unfolding st2_def by (simp add: demo_defs time_defs store_defs Let_def)
  have e2: "getDate (demo_view 0 30) + 86400000 < getTime (heap st2) (starts demo_schedule) + 1800000"
    unfolding st2_def by (simp add: demo_defs time_defs store_defs Let_def)
  from C2_min_duration_unless_day_end [OF h, of "demo_pointer 540 60 500"]
    C2_min_duration_unless_day_end [OF h2, of "demo_pointer 1425 10 1433"] h e h2 e2
  show ?thesis by blast
qed

text \<open>
  C3, as stated, fails, the end boundary of the day being the day-end that the updater
  itself clamps to (\<open>dateEnd = datetime.end(baseDate)\<close>, 23:59:59): the final clamp only
  catches an end later than the base date plus one day, so the minimum-duration clamp
  can leave the end at the next midnight. Shown on a schedule from 23:30 to 23:40 of
  day 0, pressed in the lower half of its block and released without moving: the
  request moves the end to 00:00 of day 1.
\<close>

theorem C3_counterexample:
  defines "st \<equiv> gesture [(DragStart, demo_pointer 1410 10 1418), (DragEnd, demo_pointer 1410 10 1418)]
              (demo_resize 0 30 84600000 85200000)"
  shows "changeRequests (fired st) = [(demo_schedule, [(End, 8)], 0, 8)]
         \<and> getTime (heap st) 8 = 86400000
         \<and> end_of_day (getDate (demo_view 0 30)) = 86399000
         \<and> \<not> getTime (heap st) 8 \<le> end_of_day (getDate (demo_view 0 30))"
  unfolding st_def
  by (simp add: demo_defs time_defs store_defs Let_def)

text \<open>
  C3, amended. Every drag-end of a bottom-edge drag that resolves a schedule emits one
  change request, of the end only, and the new end is never later than the base date
  plus one day (the midnight that closes the view's day), however far the pointer is
  dragged. When the base date is the start of its day, the new end is moreover not later
  than the day-end 23:59:59, unless the schedule's start plus 30 minutes lies after the
  day-end and not after that midnight (a start in the second up to 23:30:00): then the
  new end is the start plus 30 minutes.
\<close>

theorem C3_newEnd_not_after_next_midnight:
  assumes "resolves self v ds s"
  shows "\<exists>ne. changeRequests (fired (TimeResize_onDragEnd ev self)) =
            changeRequests (fired self) @ [(s, [(End, ne)], starts s, ne)]
          \<and> getTime (heap (TimeResize_onDragEnd ev self)) ne \<le> getDate v + 86400000
          \<and> (start_of_day (getDate v) = getDate v \<longrightarrow>
               (getTime (heap self) (starts s) + 1800000 \<le> end_of_day (getDate v)
                \<or> getDate v + 86400000 < getTime (heap self) (starts s) + 1800000) \<longrightarrow>
               getTime (heap (TimeResize_onDragEnd ev self)) ne \<le> end_of_day (getDate v))
          \<and> (end_of_day (getDate v) < getTime (heap self) (starts s) + 1800000 \<longrightarrow>
               getTime (heap self) (starts s) + 1800000 \<le> getDate v + 86400000 \<longrightarrow>
               getTime (heap (TimeResize_onDragEnd ev self)) ne = getTime (heap self) (starts s) + 1800000)"
proof -
  from onDragEnd_fires [OF assms, of ev] obtain ne where
    cr: "changeRequests (fired (TimeResize_onDragEnd ev self)) =
           changeRequests (fired self) @ [(s, [(End, ne)], starts s, ne)]"
    and v: "getTime (heap (TimeResize_onDragEnd ev self)) ne =
           newEnds_ms (getDate v) (getTime (heap self) (starts s)) (getTime (heap self) (ends s))
             (snd (pointToTime v (dragOriginEvent ev)) - getTime (heap self) (nearestGridTimeY ds))"
    by blast
  show ?thesis
    using cr
    by (auto simp add: v newEnds_ms_le_next_day newEnds_ms_le_end_of_day newEnds_ms_last_second)
qed

text \<open>
  Both cases: the schedule 09:00 to 10:00 with the bottom edge dragged 20 hours down
  (the new end is the day-end), and the schedule of the counterexample.
\<close>

theorem C3_witness:
  defines "st \<equiv> dragHandler_fire DragStart (demo_pointer 540 60 599) (demo_resize 0 30 32400000 36000000)"
    and "st2 \<equiv> dragHandler_fire DragStart (demo_pointer 1410 10 1418) (demo_resize 0 30 84600000 85200000)"
  shows "resolves st (demo_view 0 30) (demo_data 0 30 599) demo_schedule
   \<and> start_of_day (getDate (demo_view 0 30)) = getDate (demo_view 0 30)
   \<and> getTime (heap st) (starts demo_schedule) + 1800000 \<le> end_of_day (getDate (demo_view 0 30))
   \<and> (\<exists>ne. changeRequests (fired (TimeResize_onDragEnd (demo_pointer 540 60 1799) st)) =
            changeRequests (fired st) @ [(demo_schedule, [(End, ne)], starts demo_schedule, ne)]
          \<and> getTime (heap (TimeResize_onDragEnd (demo_pointer 540 60 1799) st)) ne
               \<le> getDate (demo_view 0 30) + 86400000
          \<and> getTime (heap (TimeResize_onDragEnd (demo_pointer 540 60 1799) st)) ne
               \<le> end_of_day (getDate (demo_view 0 30)))
   \<and> resolves st2 (demo_view 0 30) (demo_data 0 30 1418) demo_schedule
   \<and> end_of_day (getDate (demo_view 0 30)) < getTime (heap st2) (starts demo_schedule) + 1800000
   \<and> getTime (heap st2) (starts demo_schedule) + 1800000 \<le> getDate (demo_view 0 30) + 86400000
   \<and> (\<exists>ne. changeRequests (fired (TimeResize_onDragEnd (demo_pointer 1410 10 1418) st2)) =
            changeRequests (fired st2) @ [(demo_schedule, [(End, ne)], starts demo_schedule, ne)]
          \<and> getTime (heap (TimeResize_onDragEnd (demo_pointer 1410 10 1418) st2)) ne
               = getTime (heap st2) (starts demo_schedule) + 1800000)"
proof -
  have h: "resolves st (demo_view 0 30) (demo_data 0 30 599) demo_schedule"
    unfolding st_def by (simp add: demo_defs time_defs store_defs Let_def)
  have a: "start_of_day (getDate (demo_view 0 30)) = getDate (demo_view 0 30)"
    by (simp add: demo_defs)
  have e: "getTime (heap st) (starts demo_schedule) + 1800000 \<le> end_of_day (getDate (demo_view 0 30))"
    unfolding st_def by (simp add: demo_defs time_defs store_defs Let_def)
  have h2: "resolves st2 (demo_view 0 30) (demo_data 0 30 1418) demo_schedule"
    unfolding st2_def by (simp add: demo_defs time_defs store_defs Let_def)
  have e2: "end_of_day (getDate (demo_view 0 30)) < getTime (heap st2) (starts demo_schedule) + 1800000"
    unfolding st2_def by (simp add: demo_defs time_defs store_defs Let_def)
  have e3: "getTime (heap st2) (starts demo_schedule) + 1800000 \<le> getDate (demo_view 0 30) + 86400000"
    unfolding st2_def by (simp add: demo_defs time_defs store_defs Let_def)
  from C3_newEnd_not_after_next_midnight [OF h, of "demo_pointer 540 60 1799"]
    C3_newEnd_not_after_next_midnight [OF h2, of "demo_pointer 1410 10 1418"] h a e h2 e2 e3
  show ?thesis by blast
qed


text \<open>
  C5, as stated, fails: the 30-minute floor is on \<open>newEnd - start\<close>, not on the
  distance dragged, and 10:05 is 65 minutes after 09:00. Shown on the schedule 09:00 to
  10:00 of day 0 in a view that snaps to 5 minutes, pressed on the grid line 09:55 and
  released on the grid line 10:00: the request moves the end to 10:05, not to 10:30.
\<close>

theorem C5_counterexample:
  defines "st \<equiv> gesture [(DragStart, demo_pointer 540 60 599), (DragEnd, demo_pointer 540 60 604)]
              (demo_resize 0 5 32400000 36000000)"
  shows "changeRequests (fired st) = [(demo_schedule, [(End, 7)], 0, 7)]
         \<and> getTime (heap st) 7 = 36300000 \<and> getTime (heap st) 7 \<noteq> 37800000"
  unfolding st_def
  by (simp add: demo_defs time_defs store_defs Let_def)

text \<open>
  C5, amended. For a schedule with start 09:00 and end 10:00 of the view's day, a
  bottom-edge drag whose release lies 5 minutes of the grid below the press (the nearest
  range spans 35 minutes, so \<open>timeDiff\<close> is 5 minutes after the baseline is taken off)
  emits a change request with \<open>end\<close> = 10:05.
\<close>

theorem C5_five_minutes_down_gives_1005:
  assumes "resolves self v ds s"
    and "start_of_day (getDate v) = getDate v"
    and "getTime (heap self) (starts s) = getDate v + 32400000"
    and "getTime (heap self) (ends s) = getDate v + 36000000"
    and "snd (pointToTime v (dragOriginEvent ev)) - getTime (heap self) (nearestGridTimeY ds) = 300000"
  shows "\<exists>ne. changeRequests (fired (TimeResize_onDragEnd ev self)) =
            changeRequests (fired self) @ [(s, [(End, ne)], starts s, ne)]
          \<and> getTime (heap (TimeResize_onDragEnd ev self)) ne = getDate v + 36300000"
proof -
  from onDragEnd_fires [OF assms(1), of ev] obtain ne where
    cr: "changeRequests (fired (TimeResize_onDragEnd ev self)) =
           changeRequests (fired self) @ [(s, [(End, ne)], starts s, ne)]"
    and v: "getTime (heap (TimeResize_onDragEnd ev self)) ne =
           newEnds_ms (getDate v) (getTime (heap self) (starts s)) (getTime (heap self) (ends s))
             (snd (pointToTime v (dragOriginEvent ev)) - getTime (heap self) (nearestGridTimeY ds))"
    by blast
  have "newEnds_ms (getDate v) (getDate v + 32400000) (getDate v + 36000000) 300000
          = getDate v + 36000000 + 300000"
    by (rule newEnds_ms_plain) (simp_all add: end_of_day_def assms(2))
  then have "getTime (heap (TimeResize_onDragEnd ev self)) ne = getDate v + 36300000"
    by (simp add: v assms(3,4,5))
  with cr show ?thesis by blast
qed

theorem C5_witness:
  defines "st \<equiv> dragHandler_fire DragStart (demo_pointer 540 60 599) (demo_resize 0 5 32400000 36000000)"
  shows "resolves st (demo_view 0 5) (demo_data 0 5 599) demo_schedule
   \<and> start_of_day (getDate (demo_view 0 5)) = getDate (demo_view 0 5)
   \<and> getTime (heap st) (starts demo_schedule) = getDate (demo_view 0 5) + 32400000
   \<and> getTime (heap st) (ends demo_schedule) = getDate (demo_view 0 5) + 36000000
   \<and> snd (pointToTime (demo_view 0 5) (dragOriginEvent (demo_pointer 540 60 604)))
        - getTime (heap st) (nearestGridTimeY (demo_data 0 5 599)) = 300000
   \<and> (\<exists>ne. changeRequests (fired (TimeResize_onDragEnd (demo_pointer 540 60 604) st)) =
            changeRequests (fired st) @ [(demo_schedule, [(End, ne)], starts demo_schedule, ne)]
          \<and> getTime (heap (TimeResize_onDragEnd (demo_pointer 540 60 604) st)) ne
               = getDate (demo_view 0 5) + 36300000)"
proof -
  have h: "resolves st (demo_view 0 5) (demo_data 0 5 599) demo_schedule"
    unfolding st_def by (simp add: demo_defs time_defs store_defs Let_def)
  have a: "start_of_day (getDate (demo_view 0 5)) = getDate (demo_view 0 5)"
    by (simp add: demo_defs)
  have b: "getTime (heap st) (starts demo_schedule) = getDate (demo_view 0 5) + 32400000"
    unfolding st_def by (simp add: demo_defs time_defs store_defs Let_def)
  have c: "getTime (heap st) (ends demo_schedule) = getDate (demo_view 0 5) + 36000000"
    unfolding st_def by (simp add: demo_defs time_defs store_defs Let_def)
  have d: "snd (pointToTime (demo_view 0 5) (dragOriginEvent (demo_pointer 540 60 604)))
        - getTime (heap st) (nearestGridTimeY (demo_data 0 5 599)) = 300000"
    unfolding st_def by (simp add: demo_defs time_defs store_defs Let_def)
  from C5_five_minutes_down_gives_1005 [OF h a b c d] h a b c d
  show ?thesis by blast
qed

text \<open>
  C6. For a schedule with start 09:00 and end 10:00 of the view's day, a bottom-edge
  drag whose release lies 45 minutes of the grid below the press (the nearest range
  spans 75 minutes, so \<open>timeDiff\<close> is 45 minutes after the baseline is taken off) emits
  a change request with \<open>end\<close> = 10:45.
\<close>

theorem C6_45_minutes_down_gives_1045:
  assumes "resolves self v ds s"
    and "start_of_day (getDate v) = getDate v"
    and "getTime (heap self) (starts s) = getDate v + 32400000"
    and "getTime (heap self) (ends s) = getDate v + 36000000"
    and "snd (pointToTime v (dragOriginEvent ev)) - getTime (heap self) (nearestGridTimeY ds) = 2700000"
  shows "\<exists>ne. changeRequests (fired (TimeResize_onDragEnd ev self)) =
            changeRequests (fired self) @ [(s, [(End, ne)], starts s, ne)]
          \<and> getTime (heap (TimeResize_onDragEnd ev self)) ne = getDate v + 38700000"
proof -
  from onDragEnd_fires [OF assms(1), of ev] obtain ne where
    cr: "changeRequests (fired (TimeResize_onDragEnd ev self)) =
           changeRequests (fired self) @ [(s, [(End, ne)], starts s, ne)]"
    and v: "getTime (heap (TimeResize_onDragEnd ev self)) ne =
           newEnds_ms (getDate v) (getTime (heap self) (starts s)) (getTime (heap self) (ends s))
             (snd (pointToTime v (dragOriginEvent ev)) - getTime (heap self) (nearestGridTimeY ds))"
    by blast
  have "newEnds_ms (getDate v) (getDate v + 32400000) (getDate v + 36000000) 2700000
          = getDate v + 36000000 + 2700000"
    by (rule newEnds_ms_plain) (simp_all add: end_of_day_def assms(2))
  then have "getTime (heap (TimeResize_onDragEnd ev self)) ne = getDate v + 38700000"
    by (simp add: v assms(3,4,5))
  with cr show ?thesis by blast
qed

text \<open>
  The schedule 09:00 to 10:00 of day 0 in a view that snaps to 15 minutes, pressed on
  the grid line 09:45 and released on the grid line 10:30.
\<close>

theorem C6_witness:
  defines "st \<equiv> dragHandler_fire DragStart (demo_pointer 540 60 599) (demo_resize 0 15 32400000 36000000)"
  shows "resolves st (demo_view 0 15) (demo_data 0 15 599) demo_schedule
   \<and> start_of_day (getDate (demo_view 0 15)) = getDate (demo_view 0 15)
   \<and> getTime (heap st) (starts demo_schedule) = getDate (demo_view 0 15) + 32400000
   \<and> getTime (heap st) (ends demo_schedule) = getDate (demo_view 0 15) + 36000000
   \<and> snd (pointToTime (demo_view 0 15) (dragOriginEvent (demo_pointer 540 60 644)))
        - getTime (heap st) (nearestGridTimeY (demo_data 0 15 599)) = 2700000
   \<and> (\<exists>ne. changeRequests (fired (TimeResize_onDragEnd (demo_pointer 540 60 644) st)) =
            changeRequests (fired st) @ [(demo_schedule, [(End, ne)], starts demo_schedule, ne)]
          \<and> getTime (heap (TimeResize_onDragEnd (demo_pointer 540 60 644) st)) ne
               = getDate (demo_view 0 15) + 38700000)"
proof -
  have h: "resolves st (demo_view 0 15) (demo_data 0 15 599) demo_schedule"
    unfolding st_def by (simp add: demo_defs time_defs store_defs Let_def)
  have a: "start_of_day (getDate (demo_view 0 15)) = getDate (demo_view 0 15)"
    by (simp add: demo_defs)
  have b: "getTime (heap st) (starts demo_schedule) = getDate (demo_view 0 15) + 32400000"
    unfolding st_def by (simp add: demo_defs time_defs store_defs Let_def)
  have c: "getTime (heap st) (ends demo_schedule) = getDate (demo_view 0 15) + 36000000"
    unfolding st_def by (simp add: demo_defs time_defs store_defs Let_def)
  have d: "snd (pointToTime (demo_view 0 15) (dragOriginEvent (demo_pointer 540 60 644)))
        - getTime (heap st) (nearestGridTimeY (demo_data 0 15 599)) = 2700000"
    unfolding st_def by (simp add: demo_defs time_defs store_defs Let_def)
  from C6_45_minutes_down_gives_1045 [OF h a b c d] h a b c d
  show ?thesis by blast
qed


section \<open>What the handlers leave untouched\<close>

text \<open>
  The handlers only allocate dates and move dates they have allocated themselves, so
  the store grows and its old part stays as it is.
\<close>

lemma preserved_refl [simp]: "preserved h h"
  by (simp add: preserved_def)

lemma preserved_length: "preserved h h' \<Longrightarrow> length h \<le> length h'"
  unfolding preserved_def
proof -
  assume a: "take (length h) h' = h"
  have "length (take (length h) h') = min (length h') (length h)" by simp
  with a show ?thesis by simp
qed

lemma preserved_trans: "preserved a b \<Longrightarrow> preserved b c \<Longrightarrow> preserved a c"
proof -
  assume ab: "preserved a b" and bc: "preserved b c"
  have "take (length a) c = take (length a) (take (length b) c)"
    using preserved_length [OF ab] by (simp add: min_def)
  also have "\<dots> = take (length a) b" using bc by (simp add: preserved_def)
  also have "\<dots> = a" using ab by (simp add: preserved_def)
  finally show ?thesis by (simp add: preserved_def)
qed

lemma preserved_getTime: "preserved h h' \<Longrightarrow> r < length h \<Longrightarrow> getTime h' r = getTime h r"
proof -
  assume a: "preserved h h'" and r: "r < length h"
  have "take (length h) h' ! r = h' ! r" using r by simp
  with a show ?thesis by (simp add: preserved_def getTime_def)
qed

lemma fst_new_TZDate [simp]: "fst (new_TZDate v h) = length h"
  by (simp add: new_TZDate_def)

lemma length_new_TZDate [simp]: "length (snd (new_TZDate v h)) = Suc (length h)"
  by (simp add: new_TZDate_def)

lemma length_addMilliseconds [simp]: "length (addMilliseconds d n h) = length h"
  by (simp add: addMilliseconds_def)

lemma length_addMinutes [simp]: "length (addMinutes d n h) = length h"
  by (simp add: addMinutes_def)

lemma length_addDate [simp]: "length (addDate d n h) = length h"
  by (simp add: addDate_def)

lemma fst_datetime_end [simp]: "fst (datetime_end d h) = length h"
  by (simp add: datetime_end_def)

lemma length_datetime_end [simp]: "length (snd (datetime_end d h)) = Suc (length h)"
  by (simp add: datetime_end_def)

lemma preserved_new_TZDate [simp]:
  "preserved h0 h \<Longrightarrow> preserved h0 (snd (new_TZDate v h))"
  using preserved_length [of h0 h] by (simp add: preserved_def new_TZDate_def)

lemma preserved_datetime_end [simp]:
  "preserved h0 h \<Longrightarrow> preserved h0 (snd (datetime_end d h))"
  by (simp add: datetime_end_def)

lemma preserved_addMilliseconds [simp]:
  "preserved h0 h \<Longrightarrow> length h0 \<le> d \<Longrightarrow> preserved h0 (addMilliseconds d n h)"
  by (simp add: preserved_def addMilliseconds_def)

lemma preserved_addMinutes [simp]:
  "preserved h0 h \<Longrightarrow> length h0 \<le> d \<Longrightarrow> preserved h0 (addMinutes d n h)"
  by (simp add: addMinutes_def)

lemma preserved_addDate [simp]:
  "preserved h0 h \<Longrightarrow> length h0 \<le> d \<Longrightarrow> preserved h0 (addDate d n h)"
  by (simp add: addDate_def)

lemma updateSchedule_frame:
  "schedules_items (TimeResize_updateSchedule sd self) = schedules_items self
   \<and> preserved (heap self) (heap (TimeResize_updateSchedule sd self))"
  by (simp add: TimeResize_updateSchedule_def fire_def Let_def split_def
      split: option.splits)

lemma updateScheduleTop_frame:
  "schedules_items (TimeResize_updateScheduleTop sd self) = schedules_items self
   \<and> preserved (heap self) (heap (TimeResize_updateScheduleTop sd self))"
  by (simp add: TimeResize_updateScheduleTop_def fire_def Let_def split_def
      split: option.splits)


lemma retriveScheduleData_store [simp]:
  "nearestGridTimeY (fst (retriveScheduleData v e x h)) = length h"
  "length (snd (retriveScheduleData v e x h)) = Suc (length h)"
  "preserved h0 h \<Longrightarrow> preserved h0 (snd (retriveScheduleData v e x h))"
  using preserved_new_TZDate [of h0 h]
  by (simp_all add: retriveScheduleData_def split_def Let_def new_TZDate_def)

lemma updateSchedule_keeps [simp]:
  "schedules_items (TimeResize_updateSchedule sd st) = schedules_items st"
  "preserved h0 (heap st) \<Longrightarrow> preserved h0 (heap (TimeResize_updateSchedule sd st))"
  using updateSchedule_frame [of sd st] by (auto intro: preserved_trans)

lemma updateScheduleTop_keeps [simp]:
  "schedules_items (TimeResize_updateScheduleTop sd st) = schedules_items st"
  "preserved h0 (heap st) \<Longrightarrow> preserved h0 (heap (TimeResize_updateScheduleTop sd st))"
  using updateScheduleTop_frame [of sd st] by (auto intro: preserved_trans)

lemma onDragStart_frame:
  "schedules_items (TimeResize_onDragStart d self) = schedules_items self
   \<and> preserved (heap self) (heap (TimeResize_onDragStart d self))"
  by (simp add: TimeResize_onDragStart_def fire_def Let_def split_def split: option.splits)

lemma onDrag_frame:
  "schedules_items (TimeResize_onDrag d self) = schedules_items self
   \<and> preserved (heap self) (heap (TimeResize_onDrag d self))"
  by (simp add: TimeResize_onDrag_def fire_def Let_def split_def split: option.splits)

lemma onDragTop_frame:
  "schedules_items (TimeResize_onDragTop d self) = schedules_items self
   \<and> preserved (heap self) (heap (TimeResize_onDragTop d self))"
  by (simp add: TimeResize_onDragTop_def fire_def Let_def split_def split: option.splits)

lemma onDragEnd_frame:
  "schedules_items (TimeResize_onDragEnd d self) = schedules_items self
   \<and> preserved (heap self) (heap (TimeResize_onDragEnd d self))"
  by (simp add: TimeResize_onDragEnd_def fire_def Let_def split_def split: option.splits)

lemma onDragEndTop_frame:
  "schedules_items (TimeResize_onDragEndTop d self) = schedules_items self
   \<and> preserved (heap self) (heap (TimeResize_onDragEndTop d self))"
  by (simp add: TimeResize_onDragEndTop_def fire_def Let_def split_def split: option.splits)

lemma onClick_frame:
  "schedules_items (TimeResize_onClick self) = schedules_items self
   \<and> heap (TimeResize_onClick self) = heap self"
  by (simp add: TimeResize_onClick_def fire_def Let_def)

lemma invoke_frame:
  "schedules_items (invoke hdl d self) = schedules_items self
   \<and> preserved (heap self) (heap (invoke hdl d self))"
  using onDragStart_frame onDrag_frame onDragTop_frame onDragEnd_frame onDragEndTop_frame
    onClick_frame [of self]
  by (cases hdl) simp_all

lemma invoke_all_frame:
  "schedules_items (fold (\<lambda>hdl. invoke hdl d) hdls self) = schedules_items self
   \<and> preserved (heap self) (heap (fold (\<lambda>hdl. invoke hdl d) hdls self))"
proof (induction hdls arbitrary: self)
  case Nil
  show ?case by simp
next
  case (Cons hdl hdls)
  from Cons.IH [of "invoke hdl d self"] invoke_frame [of hdl d self]
  show ?case by (auto intro: preserved_trans)
qed

lemma dragHandler_fire_frame:
  "schedules_items (dragHandler_fire name d self) = schedules_items self
   \<and> preserved (heap self) (heap (dragHandler_fire name d self))"
  unfolding dragHandler_fire_def by (rule invoke_all_frame)

lemma gesture_frame:
  "schedules_items (gesture evs self) = schedules_items self
   \<and> preserved (heap self) (heap (gesture evs self))"
proof (induction evs arbitrary: self)
  case Nil
  show ?case by simp
next
  case (Cons e evs)
  obtain name d where e: "e = (name, d)" by (cases e)
  from Cons.IH [of "dragHandler_fire name d self"] dragHandler_fire_frame [of name d self]
  show ?case unfolding e by (auto intro: preserved_trans)
qed


subsection \<open>The month/week-row handlers\<close>

lemma state_of_simps [simp]:
  "state_of (Inr st) = st"
  "state_of (Inl (err, st)) = st"
  by (simp_all add: state_of_def)

lemma state_of_dragEnded [simp]:
  "week_schedules_items (state_of (case r of Inl err \<Rightarrow> Inl err
       | Inr st \<Rightarrow> Inr ((week_fire ev st)\<lparr>getScheduleData := None, cache := None\<rparr>)))
     = week_schedules_items (state_of r)"
  "week_heap (state_of (case r of Inl err \<Rightarrow> Inl err
       | Inr st \<Rightarrow> Inr ((week_fire ev st)\<lparr>getScheduleData := None, cache := None\<rparr>)))
     = week_heap (state_of r)"
  by (cases r; simp add: state_of_def week_fire_def)+

lemma week_updateSchedule_frame:
  "week_schedules_items (state_of (WeekResize_updateSchedule c st)) = week_schedules_items st
   \<and> preserved (week_heap st) (week_heap (state_of (WeekResize_updateSchedule c st)))"
  by (simp add: WeekResize_updateSchedule_def week_fire_def Let_def split_def
      split: option.splits)

lemma week_updateSchedule_keeps [simp]:
  "week_schedules_items (state_of (WeekResize_updateSchedule c st)) = week_schedules_items st"
  "preserved h0 (week_heap st) \<Longrightarrow> preserved h0 (week_heap (state_of (WeekResize_updateSchedule c st)))"
  using week_updateSchedule_frame [of c st] by (auto intro: preserved_trans)

lemma week_onDragStart_frame:
  "week_schedules_items (state_of (WeekResize_onDragStart d self)) = week_schedules_items self
   \<and> preserved (week_heap self) (week_heap (state_of (WeekResize_onDragStart d self)))"
  by (simp add: WeekResize_onDragStart_def week_fire_def Let_def split_def
      split: option.splits)

lemma week_onDrag_frame:
  "week_schedules_items (state_of (WeekResize_onDrag d self)) = week_schedules_items self
   \<and> preserved (week_heap self) (week_heap (state_of (WeekResize_onDrag d self)))"
  by (simp add: WeekResize_onDrag_def week_fire_def Let_def split_def
      split: option.splits)

lemma week_onDragEnd_frame:
  "week_schedules_items (state_of (WeekResize_onDragEnd d self)) = week_schedules_items self
   \<and> preserved (week_heap self) (week_heap (state_of (WeekResize_onDragEnd d self)))"
  by (simp add: WeekResize_onDragEnd_def Let_def split_def split: option.splits)

lemma week_invoke_frame:
  "week_schedules_items (state_of (week_invoke hdl d self)) = week_schedules_items self
   \<and> preserved (week_heap self) (week_heap (state_of (week_invoke hdl d self)))"
  using week_onDragStart_frame week_onDrag_frame week_onDragEnd_frame
  by (cases hdl) simp_all

lemma week_invoke_all_frame:
  "week_schedules_items (state_of (week_invoke_all hdls d self)) = week_schedules_items self
   \<and> preserved (week_heap self) (week_heap (state_of (week_invoke_all hdls d self)))"
proof (induction hdls arbitrary: self)
  case Nil
  show ?case by simp
next
  case (Cons hdl hdls)
  show ?case
  proof (cases "week_invoke hdl d self")
    case (Inl err)
    with week_invoke_frame [of hdl d self] show ?thesis by simp
  next
    case (Inr st)
    with week_invoke_frame [of hdl d self] Cons.IH [of st]
    show ?thesis by (auto intro: preserved_trans)
  qed
qed

lemma week_gesture_frame:
  "week_schedules_items (week_gesture evs self) = week_schedules_items self
   \<and> preserved (week_heap self) (week_heap (week_gesture evs self))"
proof (induction evs arbitrary: self)
  case Nil
  show ?case by simp
next
  case (Cons e evs)
  obtain name d where e: "e = (name, d)" by (cases e)
  from Cons.IH [of "state_of (week_dragHandler_fire name d self)"]
    week_invoke_all_frame [of "map snd (filter (\<lambda>s. fst s = name) (week_dragHandler self))" d self]
  show ?case unfolding e by (auto simp add: week_dragHandler_fire_def intro: preserved_trans)
qed


subsection \<open>Change requests\<close>

lemma retriveScheduleData_targetModelID [simp]:
  "targetModelID (fst (retriveScheduleData v e x h)) = fst x"
  by (simp add: retriveScheduleData_def split_def Let_def)

lemma withRanges_simps [simp]:
  "targetModelID (withRanges sd r nr) = targetModelID sd"
  by (simp add: withRanges_def)

lemma onDragEnd_requestsOnly:
  "requestsOnly End (fired self) (fired (TimeResize_onDragEnd d self))"
  by (simp add: requestsOnly_def TimeResize_onDragEnd_def TimeResize_updateSchedule_def
      getScheduleChanges_def fire_def Let_def split_def split: option.splits)

lemma onDragEndTop_requestsOnly:
  "requestsOnly Start (fired self) (fired (TimeResize_onDragEndTop d self))"
  by (simp add: requestsOnly_def TimeResize_onDragEndTop_def TimeResize_updateScheduleTop_def
      getScheduleChanges_def fire_def Let_def split_def split: option.splits)

lemma onDragEnd_no_match:
  "\<forall>ds. dragStart self = Some ds \<longrightarrow> schedules_items self (targetModelID ds) = None \<Longrightarrow>
   changeRequests (fired (TimeResize_onDragEnd d self)) = changeRequests (fired self)"
  by (simp add: TimeResize_onDragEnd_def TimeResize_updateSchedule_def
      fire_def Let_def split_def split: option.splits)

lemma onDragEndTop_no_match:
  "\<forall>ds. dragStart self = Some ds \<longrightarrow> schedules_items self (targetModelID ds) = None \<Longrightarrow>
   changeRequests (fired (TimeResize_onDragEndTop d self)) = changeRequests (fired self)"
  by (simp add: TimeResize_onDragEndTop_def TimeResize_updateScheduleTop_def
      fire_def Let_def split_def split: option.splits)

lemma week_changeRequests_dragEnded [simp]:
  "changeRequests (week_fired (state_of (case r of Inl err \<Rightarrow> Inl err
       | Inr st \<Rightarrow> Inr ((week_fire (WeekResizeDragend x) st)\<lparr>getScheduleData := None, cache := None\<rparr>))))
     = changeRequests (week_fired (state_of r))"
  by (cases r; simp add: state_of_def week_fire_def)

lemma week_onDragEnd_requestsOnly:
  "requestsOnly End (week_fired self) (week_fired (state_of (WeekResize_onDragEnd d self)))"
  by (simp add: requestsOnly_def WeekResize_onDragEnd_def WeekResize_updateSchedule_def
      getScheduleChanges_def week_fire_def withEnd_def Let_def split_def split: option.splits)

lemma week_onDragEnd_no_match:
  "\<forall>c. cache self = Some c \<longrightarrow> cacheSchedule c = None \<Longrightarrow>
   changeRequests (week_fired (state_of (WeekResize_onDragEnd d self))) = changeRequests (week_fired self)"
  by (simp add: WeekResize_onDragEnd_def week_fire_def Let_def split_def split: option.splits)

lemma other_handlers_no_request:
  "changeRequests (fired (TimeResize_onDragStart d self)) = changeRequests (fired self)"
  "changeRequests (fired (TimeResize_onDrag d self)) = changeRequests (fired self)"
  "changeRequests (fired (TimeResize_onDragTop d self)) = changeRequests (fired self)"
  "changeRequests (fired (TimeResize_onClick self)) = changeRequests (fired self)"
  by (simp_all add: TimeResize_onDragStart_def TimeResize_onDrag_def TimeResize_onDragTop_def
      TimeResize_onClick_def fire_def Let_def split_def split: option.splits)


lemma week_other_handlers_no_request:
  "changeRequests (week_fired (state_of (WeekResize_onDragStart wd wself))) = changeRequests (week_fired wself)"
  "changeRequests (week_fired (state_of (WeekResize_onDrag wd wself))) = changeRequests (week_fired wself)"
  by (simp_all add: WeekResize_onDragStart_def WeekResize_onDrag_def week_fire_def Let_def split_def
      split: option.splits)


section \<open>The month/week-row variant: the drag end\<close>

text \<open>
  C7, as stated, fails in its last clause: when the candidate is earlier than the
  start, the handler still unsubscribes, fires \<open>WeekResizeDragend\<close> and clears the
  session, so something is emitted and the handler's state changes. Shown on a schedule
  from 09:00 to 10:00 of day 2, its handle pressed in the column of day 2 and released
  in the column of day 0.
\<close>

theorem C7_counterexample:
  defines "st \<equiv> state_of (week_dragHandler_fire DragStart (demo_week_pointer ''1'' 250)
                     (demo_week_resize 205200000 208800000))"
  defines "st' \<equiv> state_of (WeekResize_onDragEnd (demo_week_pointer ''1'' 50) st)"
  shows "getMousePosData demo_month_view (weekOriginEvent (demo_week_pointer ''1'' 50))
           = Some \<lparr>gridX = 0, gridY = 0, date = 86399000\<rparr>
     \<and> getTime (week_heap st) (starts demo_schedule) = 205200000
     \<and> week_fired st' = week_fired st @ [WeekResizeDragend (Some \<lparr>gridX = 0, gridY = 0, date = 86399000\<rparr>)]
     \<and> week_fired st' \<noteq> week_fired st
     \<and> week_dragHandler st = [(DragStart, WeekOnDragStart), (Drag, WeekOnDrag), (DragEnd, WeekOnDragEnd)]
     \<and> week_dragHandler st' = [(DragStart, WeekOnDragStart)]
     \<and> getScheduleData st \<noteq> None \<and> getScheduleData st' = None
     \<and> cache st \<noteq> None \<and> cache st' = None"
  unfolding st'_def st_def
  by (simp add: week_defs store_defs Let_def)

text \<open>
  C7, amended. On a drag-end of the month variant whose session holds a schedule and
  whose pointer maps to a candidate end date, a change request is emitted if and only if
  the candidate is not earlier than the schedule's start. When it is emitted, its end is
  the end of the candidate's day, its changes object has the single property \<open>end\<close>,
  and the start it carries is a copy of the schedule's start. When the candidate is
  earlier than the start, no change request is emitted and the only event fired is the
  \<open>WeekResizeDragend\<close> notification. In both cases the schedule collection and every
  date of the store are as before, the drag and drag-end handlers are unsubscribed and
  the session is cleared.
\<close>

theorem C7_week_change_request_iff_not_before_start:
  assumes "getScheduleData self = Some f" and "cache self = Some c" and "cacheSchedule c = Some s"
    and "f (weekOriginEvent ev) = Some sd" and "starts s < length (week_heap self)"
  shows "\<exists>st'. WeekResize_onDragEnd ev self = Inr st'
     \<and> week_schedules_items st' = week_schedules_items self
     \<and> (\<forall>r<length (week_heap self). getTime (week_heap st') r = getTime (week_heap self) r)
     \<and> ((changeRequests (week_fired st') \<noteq> changeRequests (week_fired self))
          = (getTime (week_heap self) (starts s) \<le> date sd))
     \<and> (getTime (week_heap self) (starts s) \<le> date sd \<longrightarrow>
          (\<exists>newStart newEnd.
             changeRequests (week_fired st') =
               changeRequests (week_fired self) @ [(s, [(End, newEnd)], newStart, newEnd)]
             \<and> getTime (week_heap st') newEnd = end_of_day (date sd)
             \<and> getTime (week_heap st') newStart = getTime (week_heap self) (starts s)))
     \<and> (date sd < getTime (week_heap self) (starts s) \<longrightarrow>
          week_fired st' = week_fired self @ [WeekResizeDragend (Some sd)])
     \<and> week_dragHandler st' =
          off [(Drag, WeekOnDrag), (DragEnd, WeekOnDragEnd)] (week_dragHandler self)
     \<and> getScheduleData st' = None \<and> cache st' = None"
  using assms
  by (simp add: WeekResize_onDragEnd_def WeekResize_updateSchedule_def withEnd_def week_fire_def
      getScheduleChanges_def store_defs Let_def nth_append)

text \<open>
  A schedule from 09:00 to 10:00 of day 2, its handle pressed in the column of day 2:
  released in the column of day 4, and released in the column of day 0.
\<close>

theorem C7_witness:
  defines "st \<equiv> state_of (week_dragHandler_fire DragStart (demo_week_pointer ''1'' 250)
                     (demo_week_resize 205200000 208800000))"
    and "c \<equiv> \<lparr>cacheSchedule = Some demo_schedule, cacheTarget = ''1'', cacheStart = 2\<rparr>"
    and "late \<equiv> \<lparr>gridX = 4, gridY = 0, date = 431999000\<rparr>"
    and "early \<equiv> \<lparr>gridX = 0, gridY = 0, date = 86399000\<rparr>"
  shows "getScheduleData st = Some (getMousePosData demo_month_view)
     \<and> cache st = Some c \<and> cacheSchedule c = Some demo_schedule
     \<and> getMousePosData demo_month_view (weekOriginEvent (demo_week_pointer ''1'' 450)) = Some late
     \<and> getMousePosData demo_month_view (weekOriginEvent (demo_week_pointer ''1'' 50)) = Some early
     \<and> starts demo_schedule < length (week_heap st)
     \<and> getTime (week_heap st) (starts demo_schedule) \<le> date late
     \<and> date early < getTime (week_heap st) (starts demo_schedule)
     \<and> (\<exists>st'. WeekResize_onDragEnd (demo_week_pointer ''1'' 450) st = Inr st'
          \<and> (\<exists>newStart newEnd.
                changeRequests (week_fired st') =
                  changeRequests (week_fired st) @ [(demo_schedule, [(End, newEnd)], newStart, newEnd)]
                \<and> getTime (week_heap st') newEnd = end_of_day (date late)
                \<and> getTime (week_heap st') newStart = getTime (week_heap st) (starts demo_schedule)))
     \<and> (\<exists>st'. WeekResize_onDragEnd (demo_week_pointer ''1'' 50) st = Inr st'
          \<and> week_schedules_items st' = week_schedules_items st
          \<and> changeRequests (week_fired st') = changeRequests (week_fired st)
          \<and> week_fired st' = week_fired st @ [WeekResizeDragend (Some early)])"
proof -
  have f: "getScheduleData st = Some (getMousePosData demo_month_view)"
    unfolding st_def by (simp add: week_defs store_defs Let_def)
  have ch: "cache st = Some c"
    unfolding st_def c_def by (simp add: week_defs store_defs Let_def)
  have cs: "cacheSchedule c = Some demo_schedule"
    by (simp add: c_def)
  have l: "getMousePosData demo_month_view (weekOriginEvent (demo_week_pointer ''1'' 450)) = Some late"
    by (simp add: week_defs late_def)
  have e: "getMousePosData demo_month_view (weekOriginEvent (demo_week_pointer ''1'' 50)) = Some early"
    by (simp add: week_defs early_def)
  have r: "starts demo_schedule < length (week_heap st)"
    unfolding st_def by (simp add: week_defs store_defs Let_def)
  have le: "getTime (week_heap st) (starts demo_schedule) \<le> date late"
    unfolding st_def late_def by (simp add: week_defs store_defs Let_def)
  have lt: "date early < getTime (week_heap st) (starts demo_schedule)"
    unfolding st_def early_def by (simp add: week_defs store_defs Let_def)
  from C7_week_change_request_iff_not_before_start [OF f ch cs l r]
    C7_week_change_request_iff_not_before_start [OF f ch cs e r]
    f ch cs l e r le lt
  show ?thesis by (simp add: not_le [symmetric] del: not_le) blast
qed


section \<open>The day/time-grid variant: click and classifier\<close>

text \<open>
  C8. In an idle handler (only \<open>_onDragStart\<close> subscribed) let a drag-start be
  confirmed and a click follow. The click fires \<open>timeResizeClick\<close> and nothing else, no
  change request is emitted by the drag-start or the click, the schedule collection and
  the dates of the store are as before, and the move, up and click handlers are
  unsubscribed again. For any state whatever, \<open>_onClick\<close> fires \<open>timeResizeClick\<close>,
  leaves collection and store alone and leaves none of the move, up and click handlers
  subscribed.
\<close>

theorem C8_click_cancels:
  fixes self other :: time_resize and d d' :: drag_event_data
  assumes "dragHandler self = [(DragStart, OnDragStart)]"
    and "checkExpectCondition self (target d) = Some v"
    and "closestScheduleBlock (target d) = Some blk"
  defines "st \<equiv> dragHandler_fire DragStart d self"
  defines "st' \<equiv> dragHandler_fire Click d' st"
  shows "fired st' = fired st @ [TimeResizeClick]
     \<and> changeRequests (fired st') = changeRequests (fired self)
     \<and> schedules_items st' = schedules_items self
     \<and> heap st' = heap st
     \<and> (\<forall>r<length (heap self). getTime (heap st') r = getTime (heap self) r)
     \<and> dragHandler st' = [(DragStart, OnDragStart)]
     \<and> fired (TimeResize_onClick other) = fired other @ [TimeResizeClick]
     \<and> schedules_items (TimeResize_onClick other) = schedules_items other
     \<and> heap (TimeResize_onClick other) = heap other
     \<and> set (dragHandler (TimeResize_onClick other)) \<inter>
          {(Drag, OnDrag), (DragEnd, OnDragEnd), (Drag, OnDragTop), (DragEnd, OnDragEndTop),
           (Click, OnClick)} = {}"
proof -
  have st: "st = TimeResize_onDragStart d self"
    by (simp add: st_def dragHandler_fire_def subscribed_def assms(1))
  have subs: "dragHandler st = [(DragStart, OnDragStart), (Drag, OnDragTop), (DragEnd, OnDragEndTop), (Click, OnClick)]
            \<or> dragHandler st = [(DragStart, OnDragStart), (Drag, OnDrag), (DragEnd, OnDragEnd), (Click, OnClick)]"
    using assms(1,2,3)
    by (simp add: st TimeResize_onDragStart_def fire_def on_def Let_def split_def)
  have st': "st' = TimeResize_onClick st"
    using subs by (auto simp add: st'_def dragHandler_fire_def subscribed_def)
  have a: "fired st' = fired st @ [TimeResizeClick]"
    by (simp add: st' TimeResize_onClick_def fire_def Let_def)
  have b: "changeRequests (fired st') = changeRequests (fired self)"
    by (simp add: a st other_handlers_no_request)
  have c: "schedules_items st' = schedules_items self"
    using onClick_frame [of st] onDragStart_frame [of d self] by (simp add: st' st)
  have e: "heap st' = heap st"
    using onClick_frame [of st] by (simp add: st')
  have f: "\<forall>r<length (heap self). getTime (heap st') r = getTime (heap self) r"
    using onDragStart_frame [of d self] by (simp add: e st preserved_getTime)
  have g: "dragHandler st' = [(DragStart, OnDragStart)]"
    using subs by (auto simp add: st' TimeResize_onClick_def fire_def off_def Let_def)
  have h: "fired (TimeResize_onClick other) = fired other @ [TimeResizeClick]
     \<and> schedules_items (TimeResize_onClick other) = schedules_items other
     \<and> heap (TimeResize_onClick other) = heap other
     \<and> set (dragHandler (TimeResize_onClick other)) \<inter>
          {(Drag, OnDrag), (DragEnd, OnDragEnd), (Drag, OnDragTop), (DragEnd, OnDragEndTop),
           (Click, OnClick)} = {}"
    by (auto simp add: TimeResize_onClick_def fire_def off_def Let_def)
  from a b c e f g h show ?thesis by blast
qed

theorem C8_witness:
  defines "self \<equiv> demo_resize 0 30 32400000 36000000"
    and "d \<equiv> demo_pointer 540 60 599"
  defines "st \<equiv> dragHandler_fire DragStart d self"
  defines "st' \<equiv> dragHandler_fire Click d st"
  shows "dragHandler self = [(DragStart, OnDragStart)]
     \<and> checkExpectCondition self (target d) = Some (demo_view 0 30)
     \<and> closestScheduleBlock (target d) = Some \<lparr>rect_top = 540, rect_height = 60, data_id = ''1''\<rparr>
     \<and> fired st' = fired st @ [TimeResizeClick]
     \<and> changeRequests (fired st') = changeRequests (fired self)
     \<and> schedules_items st' = schedules_items self
     \<and> getTime (heap st') (starts demo_schedule) = getTime (heap self) (starts demo_schedule)
     \<and> getTime (heap st') (ends demo_schedule) = getTime (heap self) (ends demo_schedule)
     \<and> dragHandler st' = [(DragStart, OnDragStart)]"
proof -
  have a: "dragHandler self = [(DragStart, OnDragStart)]"
    by (simp add: self_def demo_defs TimeResize_def on_def)
  have b: "checkExpectCondition self (target d) = Some (demo_view 0 30)"
    by (simp add: self_def d_def demo_defs TimeResize_def checkExpectCondition_def)
  have c: "closestScheduleBlock (target d) = Some \<lparr>rect_top = 540, rect_height = 60, data_id = ''1''\<rparr>"
    by (simp add: d_def demo_defs)
  have l: "starts demo_schedule < length (heap self)" "ends demo_schedule < length (heap self)"
    by (simp_all add: self_def demo_defs TimeResize_def)
  note t = C8_click_cancels [OF a b c, of d self, folded st_def st'_def]
  from t l a b c show ?thesis by blast
qed

text \<open>
  The threshold that \<open>_onDragStart\<close> computes for the block with top 100.1 and height
  257.8, operation by operation.
\<close>

lemma demo_fraction_threshold:
  "blockElementDraggingTopThreshold demo_fraction_block = 8057221208342527 / 35184372088832"
proof -
  have a: "double_round (3521955646092083 / 35184372088832 + 4535265562250445 / 17592186044416)
             = 3148121692648243 / 8796093022208"
    by (subst double_round_eval [where n = 8]) (simp_all add: roundTiesToEven_def)
  have b: "double_round (3148121692648243 / 8796093022208 - 3521955646092083 / 35184372088832)
             = 1133816390562611 / 4398046511104"
    by (subst double_round_eval [where n = 8]) (simp_all add: roundTiesToEven_def)
  have c: "double_round (1133816390562611 / 4398046511104 / 2) = 1133816390562611 / 8796093022208"
    by (subst double_round_eval [where n = 7]) (simp_all add: roundTiesToEven_def)
  have d: "double_round (3521955646092083 / 35184372088832 + 1133816390562611 / 8796093022208)
             = 8057221208342527 / 35184372088832"
    by (subst double_round_eval [where n = 7]) (simp_all add: roundTiesToEven_def)
  show ?thesis
    by (simp only: blockElementDraggingTopThreshold_def demo_fraction_block_def Let_def
        block_element.simps a b c d)
qed

lemma demo_fraction_doubles:
  "double_round (1001 / 10) = rect_top demo_fraction_block"
  "double_round (2578 / 10) = rect_height demo_fraction_block"
   apply (subst double_round_eval [where n = 6]; simp add: roundTiesToEven_def demo_fraction_block_def)
  apply (subst double_round_eval [where n = 8]; simp add: roundTiesToEven_def demo_fraction_block_def)
  done

text \<open>
  C10, as stated, fails: the threshold is computed in double arithmetic and can lie
  below the exact midpoint of the bounding box. For a block with top 100.1 and height
  257.8 (as doubles) the exact midpoint is 229, the computed threshold is
  \<open>229 - 1 / 2 ^ 45\<close>, and a pointer-down at \<open>clientY\<close> = 229 is classified as a
  bottom-edge drag: the bottom-edge handlers are subscribed.
\<close>

theorem C10_counterexample:
  "double_round (1001 / 10) = rect_top demo_fraction_block
   \<and> double_round (2578 / 10) = rect_height demo_fraction_block
   \<and> checkExpectCondition (demo_resize 0 30 32400000 36000000) (target (demo_fraction_pointer 229))
        = Some (demo_view 0 30)
   \<and> closestScheduleBlock (target (demo_fraction_pointer 229)) = Some demo_fraction_block
   \<and> clientY (dragOriginEvent (demo_fraction_pointer 229))
        = rect_top demo_fraction_block + rect_height demo_fraction_block / 2
   \<and> blockElementDraggingTopThreshold demo_fraction_block = 229 - 1 / 2 ^ 45
   \<and> \<not> isDraggingTop demo_fraction_block (dragOriginEvent (demo_fraction_pointer 229))
   \<and> dragHandler (TimeResize_onDragStart (demo_fraction_pointer 229)
         (demo_resize 0 30 32400000 36000000)) =
        dragHandler (demo_resize 0 30 32400000 36000000)
          @ [(Drag, OnDrag), (DragEnd, OnDragEnd), (Click, OnClick)]"
proof -
  have a: "checkExpectCondition (demo_resize 0 30 32400000 36000000) (target (demo_fraction_pointer 229))
        = Some (demo_view 0 30)"
    by (simp add: demo_defs demo_fraction_pointer_def TimeResize_def checkExpectCondition_def)
  have b: "closestScheduleBlock (target (demo_fraction_pointer 229)) = Some demo_fraction_block"
    by (simp add: demo_fraction_pointer_def)
  have c: "clientY (dragOriginEvent (demo_fraction_pointer 229))
        = rect_top demo_fraction_block + rect_height demo_fraction_block / 2"
    by (simp add: demo_fraction_pointer_def demo_fraction_block_def)
  have t: "blockElementDraggingTopThreshold demo_fraction_block = 229 - 1 / 2 ^ 45"
    by (simp add: demo_fraction_threshold)
  have e: "\<not> isDraggingTop demo_fraction_block (dragOriginEvent (demo_fraction_pointer 229))"
    by (simp add: isDraggingTop_def demo_fraction_threshold demo_fraction_pointer_def)
  have f: "dragHandler (TimeResize_onDragStart (demo_fraction_pointer 229)
         (demo_resize 0 30 32400000 36000000)) =
        dragHandler (demo_resize 0 30 32400000 36000000)
          @ [(Drag, OnDrag), (DragEnd, OnDragEnd), (Click, OnClick)]"
    using e by (simp add: TimeResize_onDragStart_def a b fire_def on_def Let_def split_def)
  from demo_fraction_doubles a b c t e f show ?thesis by simp
qed

text \<open>
  C10, amended. When the classifier accepts the target and the pointer's \<open>clientY\<close>
  equals the threshold that \<open>_onDragStart\<close> computes in double arithmetic,
  \<open>top + ((top + height) - top) / 2\<close> with every operation rounded, the drag is a
  top-edge drag (the comparison is \<open>\<le>\<close>) and \<open>_onDragStart\<close> subscribes the top-edge
  handlers: \<open>_onDragTop\<close>, \<open>_onDragEndTop\<close> and \<open>_onClick\<close>. The threshold is the
  exact vertical midpoint of the bounding box whenever the intermediate results
  \<open>top + height\<close>, \<open>height\<close>, \<open>height / 2\<close> and \<open>top + height / 2\<close> are doubles, as
  they are for integer pixel coordinates.
\<close>

theorem C10_threshold_tie_is_top_edge:
  assumes "checkExpectCondition self (target d) = Some v"
    and "closestScheduleBlock (target d) = Some blk"
    and "clientY (dragOriginEvent d) = blockElementDraggingTopThreshold blk"
  shows "isDraggingTop blk (dragOriginEvent d)
     \<and> dragHandler (TimeResize_onDragStart d self) =
         dragHandler self @ [(Drag, OnDragTop), (DragEnd, OnDragEndTop), (Click, OnClick)]
     \<and> (double_round (rect_top blk + rect_height blk) = rect_top blk + rect_height blk \<longrightarrow>
         double_round (rect_height blk) = rect_height blk \<longrightarrow>
         double_round (rect_height blk / 2) = rect_height blk / 2 \<longrightarrow>
         double_round (rect_top blk + rect_height blk / 2) = rect_top blk + rect_height blk / 2 \<longrightarrow>
         blockElementDraggingTopThreshold blk = rect_top blk + rect_height blk / 2)"
proof -
  have top: "isDraggingTop blk (dragOriginEvent d)"
    by (simp add: isDraggingTop_def assms(3))
  have subs: "dragHandler (TimeResize_onDragStart d self) =
         dragHandler self @ [(Drag, OnDragTop), (DragEnd, OnDragEndTop), (Click, OnClick)]"
    using top assms(1,2)
    by (simp add: TimeResize_onDragStart_def fire_def on_def Let_def split_def)
  have exact: "double_round (rect_top blk + rect_height blk) = rect_top blk + rect_height blk \<longrightarrow>
         double_round (rect_height blk) = rect_height blk \<longrightarrow>
         double_round (rect_height blk / 2) = rect_height blk / 2 \<longrightarrow>
         double_round (rect_top blk + rect_height blk / 2) = rect_top blk + rect_height blk / 2 \<longrightarrow>
         blockElementDraggingTopThreshold blk = rect_top blk + rect_height blk / 2"
  proof (intro impI)
    assume a: "double_round (rect_top blk + rect_height blk) = rect_top blk + rect_height blk"
      and b: "double_round (rect_height blk) = rect_height blk"
      and c: "double_round (rect_height blk / 2) = rect_height blk / 2"
      and e: "double_round (rect_top blk + rect_height blk / 2) = rect_top blk + rect_height blk / 2"
    show "blockElementDraggingTopThreshold blk = rect_top blk + rect_height blk / 2"
      by (simp only: blockElementDraggingTopThreshold_def Let_def a add_diff_cancel_left' b c e)
  qed
  from top subs exact show ?thesis by blast
qed

text \<open>
  The block with top 540 and height 60, pressed at 570.
\<close>

theorem C10_witness:
  defines "blk \<equiv> \<lparr>rect_top = 540, rect_height = 60, data_id = ''1''\<rparr>"
  shows "checkExpectCondition (demo_resize 0 30 32400000 36000000) (target (demo_pointer 540 60 570))
      = Some (demo_view 0 30)
   \<and> closestScheduleBlock (target (demo_pointer 540 60 570)) = Some blk
   \<and> clientY (dragOriginEvent (demo_pointer 540 60 570)) = blockElementDraggingTopThreshold blk
   \<and> double_round (rect_top blk + rect_height blk) = rect_top blk + rect_height blk
   \<and> double_round (rect_height blk) = rect_height blk
   \<and> double_round (rect_height blk / 2) = rect_height blk / 2
   \<and> double_round (rect_top blk + rect_height blk / 2) = rect_top blk + rect_height blk / 2
   \<and> isDraggingTop blk (dragOriginEvent (demo_pointer 540 60 570))
   \<and> dragHandler (TimeResize_onDragStart (demo_pointer 540 60 570) (demo_resize 0 30 32400000 36000000)) =
        dragHandler (demo_resize 0 30 32400000 36000000)
          @ [(Drag, OnDragTop), (DragEnd, OnDragEndTop), (Click, OnClick)]
   \<and> blockElementDraggingTopThreshold blk = rect_top blk + rect_height blk / 2"
proof -
  have a: "checkExpectCondition (demo_resize 0 30 32400000 36000000) (target (demo_pointer 540 60 570))
      = Some (demo_view 0 30)"
    by (simp add: demo_defs TimeResize_def checkExpectCondition_def)
  have b: "closestScheduleBlock (target (demo_pointer 540 60 570)) = Some blk"
    by (simp add: demo_defs blk_def)
  have c: "clientY (dragOriginEvent (demo_pointer 540 60 570)) = blockElementDraggingTopThreshold blk"
    by (simp add: demo_defs blk_def blockElementDraggingTopThreshold_def double_round_int)
  have e: "double_round (rect_top blk + rect_height blk) = rect_top blk + rect_height blk"
    "double_round (rect_height blk) = rect_height blk"
    "double_round (rect_height blk / 2) = rect_height blk / 2"
    "double_round (rect_top blk + rect_height blk / 2) = rect_top blk + rect_height blk / 2"
    by (simp_all add: blk_def double_round_int)
  from C10_threshold_tie_is_top_edge [OF a b c] a b c e show ?thesis by blast
qed


section \<open>Schedules change only by request\<close>

text \<open>
  C9. Whatever events the gesture source emits, in either variant, the controller's
  schedule collection after the gesture is the collection before it and every date
  object of the store, so the start and the end of every schedule, holds the instant it
  held before. What a drag-end adds to the change requests has a changes object with
  the single property \<open>end\<close> (bottom-edge and month drags) or \<open>start\<close> (top-edge
  drags); the other handlers add no change request. When no schedule matches the
  session's model id, a drag-end adds no change request (in the month variant reading
  the missing schedule throws a \<open>TypeError\<close> before anything is fired).
\<close>

theorem C9_schedules_change_only_by_request:
  fixes self :: time_resize and wself :: week_resize
  shows "schedules_items (gesture evs self) = schedules_items self
   \<and> (\<forall>r<length (heap self). getTime (heap (gesture evs self)) r = getTime (heap self) r)
   \<and> week_schedules_items (week_gesture wevs wself) = week_schedules_items wself
   \<and> (\<forall>r<length (week_heap wself).
         getTime (week_heap (week_gesture wevs wself)) r = getTime (week_heap wself) r)
   \<and> requestsOnly End (fired self) (fired (TimeResize_onDragEnd d self))
   \<and> requestsOnly Start (fired self) (fired (TimeResize_onDragEndTop d self))
   \<and> requestsOnly End (week_fired wself) (week_fired (state_of (WeekResize_onDragEnd wd wself)))
   \<and> changeRequests (fired (TimeResize_onDragStart d self)) = changeRequests (fired self)
   \<and> changeRequests (fired (TimeResize_onDrag d self)) = changeRequests (fired self)
   \<and> changeRequests (fired (TimeResize_onDragTop d self)) = changeRequests (fired self)
   \<and> changeRequests (fired (TimeResize_onClick self)) = changeRequests (fired self)
   \<and> changeRequests (week_fired (state_of (WeekResize_onDragStart wd wself)))
        = changeRequests (week_fired wself)
   \<and> changeRequests (week_fired (state_of (WeekResize_onDrag wd wself)))
        = changeRequests (week_fired wself)
   \<and> ((\<forall>ds. dragStart self = Some ds \<longrightarrow> schedules_items self (targetModelID ds) = None) \<longrightarrow>
          changeRequests (fired (TimeResize_onDragEnd d self)) = changeRequests (fired self)
        \<and> changeRequests (fired (TimeResize_onDragEndTop d self)) = changeRequests (fired self))
   \<and> ((\<forall>c. cache wself = Some c \<longrightarrow> cacheSchedule c = None) \<longrightarrow>
          changeRequests (week_fired (state_of (WeekResize_onDragEnd wd wself)))
            = changeRequests (week_fired wself))"
proof -
  have t: "\<forall>r<length (heap self). getTime (heap (gesture evs self)) r = getTime (heap self) r"
    using gesture_frame [of evs self] by (simp add: preserved_getTime)
  have w: "\<forall>r<length (week_heap wself).
         getTime (week_heap (week_gesture wevs wself)) r = getTime (week_heap wself) r"
    using week_gesture_frame [of wevs wself] by (simp add: preserved_getTime)
  show ?thesis
    using t w gesture_frame [of evs self] week_gesture_frame [of wevs wself]
      onDragEnd_requestsOnly [of self d] onDragEndTop_requestsOnly [of self d]
      week_onDragEnd_requestsOnly [of wself wd]
      other_handlers_no_request week_other_handlers_no_request
      onDragEnd_no_match [of self d] onDragEndTop_no_match [of self d]
      week_onDragEnd_no_match [of wself wd]
    by blast
qed

theorem C9_witness:
  defines "R \<equiv> demo_resize 0 30 32400000 36000000"
    and "G \<equiv> [(DragStart, demo_pointer 540 60 599), (Drag, demo_pointer 540 60 620),
               (DragEnd, demo_pointer 540 60 644)]"
    and "WR \<equiv> demo_week_resize 205200000 208800000"
    and "WG \<equiv> [(DragStart, demo_week_pointer ''1'' 250), (Drag, demo_week_pointer ''1'' 350),
                (DragEnd, demo_week_pointer ''1'' 450)]"
  defines "S \<equiv> dragHandler_fire DragStart (demo_stray_pointer 540 60 599) R"
    and "WS \<equiv> state_of (week_dragHandler_fire DragStart (demo_week_pointer ''2'' 250) WR)"
  shows "schedules_items (gesture G R) ''1'' = Some demo_schedule
   \<and> getTime (heap (gesture G R)) (starts demo_schedule) = 32400000
   \<and> getTime (heap (gesture G R)) (ends demo_schedule) = 36000000
   \<and> week_schedules_items (week_gesture WG WR) ''1'' = Some demo_schedule
   \<and> getTime (week_heap (week_gesture WG WR)) (starts demo_schedule) = 205200000
   \<and> getTime (week_heap (week_gesture WG WR)) (ends demo_schedule) = 208800000
   \<and> map_option targetModelID (dragStart S) = Some ''2'' \<and> schedules_items S ''2'' = None
   \<and> changeRequests (fired (TimeResize_onDragEnd (demo_stray_pointer 540 60 644) S))
        = changeRequests (fired S)
   \<and> changeRequests (fired (TimeResize_onDragEndTop (demo_stray_pointer 540 60 644) S))
        = changeRequests (fired S)
   \<and> map_option cacheSchedule (cache WS) = Some None
   \<and> changeRequests (week_fired (state_of (WeekResize_onDragEnd (demo_week_pointer ''2'' 450) WS)))
        = changeRequests (week_fired WS)"
proof -
  note t = C9_schedules_change_only_by_request
             [of G R WG WR "demo_stray_pointer 540 60 644" "demo_week_pointer ''2'' 450"]
  note u = C9_schedules_change_only_by_request
             [of G S WG WS "demo_stray_pointer 540 60 644" "demo_week_pointer ''2'' 450"]
  have r: "schedules_items R ''1'' = Some demo_schedule" "length (heap R) = 2"
    "getTime (heap R) 0 = 32400000" "getTime (heap R) 1 = 36000000"
    "starts demo_schedule = 0" "ends demo_schedule = 1"
    by (simp_all add: R_def demo_defs TimeResize_def getTime_def)
  have wr: "week_schedules_items WR ''1'' = Some demo_schedule" "length (week_heap WR) = 2"
    "getTime (week_heap WR) 0 = 205200000" "getTime (week_heap WR) 1 = 208800000"
    by (simp_all add: WR_def week_defs getTime_def)
  have s: "map_option targetModelID (dragStart S) = Some ''2''" "schedules_items S ''2'' = None"
    by (simp_all add: S_def R_def demo_defs demo_stray_pointer_def time_defs store_defs Let_def)
  have ws: "map_option cacheSchedule (cache WS) = Some None"
    by (simp add: WS_def WR_def week_defs store_defs Let_def)
  have p: "\<forall>ds. dragStart S = Some ds \<longrightarrow> schedules_items S (targetModelID ds) = None"
    using s by auto
  have q: "\<forall>c. cache WS = Some c \<longrightarrow> cacheSchedule c = None"
    using ws by auto
  have a: "schedules_items (gesture G R) ''1'' = Some demo_schedule"
    using t r(1) by simp
  have b: "getTime (heap (gesture G R)) (starts demo_schedule) = 32400000"
      "getTime (heap (gesture G R)) (ends demo_schedule) = 36000000"
    using t r(2-) by simp_all
  have c: "week_schedules_items (week_gesture WG WR) ''1'' = Some demo_schedule"
    using t wr(1) by simp
  have e: "getTime (week_heap (week_gesture WG WR)) (starts demo_schedule) = 205200000"
      "getTime (week_heap (week_gesture WG WR)) (ends demo_schedule) = 208800000"
    using t wr(2-) r(5,6) by simp_all
  from u p q have f:
    "changeRequests (fired (TimeResize_onDragEnd (demo_stray_pointer 540 60 644) S))
        = changeRequests (fired S)"
    "changeRequests (fired (TimeResize_onDragEndTop (demo_stray_pointer 540 60 644) S))
        = changeRequests (fired S)"
    "changeRequests (week_fired (state_of (WeekResize_onDragEnd (demo_week_pointer ''2'' 450) WS)))
        = changeRequests (week_fired WS)"
    by blast+
  from a b c e s ws f show ?thesis by blast
qed

end
